theory Spec2Isabelle
  imports Main "HOL-Library.AList"
begin

section \<open>Python strings\<close>

text \<open>
  A Python \<open>str\<close> is a sequence of Unicode code points, and \<open>len\<close> counts code points.
  The text handled by the server is therefore a list of code points; \<open>py\<close> embeds an
  ASCII literal.
\<close>

type_synonym codepoint = nat
type_synonym pystr = "codepoint list"

definition py :: "string \<Rightarrow> pystr" where
  "py s = map of_char s"

text \<open>
  The code points for which \<open>str.isspace\<close> holds; \<open>str.split()\<close> and \<open>str.strip()\<close>
  without arguments use the same class: TAB..CR, FS..US and SPACE, NEL, NBSP, OGHAM SPACE
  MARK, EN QUAD..HAIR SPACE, the line and paragraph separators, NARROW NBSP, MEDIUM
  MATHEMATICAL SPACE and IDEOGRAPHIC SPACE.
\<close>

definition isspace :: "codepoint \<Rightarrow> bool" where
  "isspace c \<longleftrightarrow>
     (9 \<le> c \<and> c \<le> 13) \<or> (28 \<le> c \<and> c \<le> 32) \<or> c = 133 \<or> c = 160 \<or> c = 5760 \<or>
     (8192 \<le> c \<and> c \<le> 8202) \<or> c = 8232 \<or> c = 8233 \<or> c = 8239 \<or> c = 8287 \<or> c = 12288"

text \<open>
  \<open>text.split()\<close>: skip whitespace, cut the maximal run of other characters that
  follows, and repeat until the text is used up.
\<close>

function str_split :: "pystr \<Rightarrow> pystr list" where
  "str_split s =
     (case dropWhile isspace s of
        [] \<Rightarrow> []
      | c # cs \<Rightarrow>
          (c # takeWhile (\<lambda>x. \<not> isspace x) cs) # str_split (dropWhile (\<lambda>x. \<not> isspace x) cs))"
  by pat_completeness auto
termination
proof (relation "measure length")
  show "wf (measure length)" by simp
next
  fix s :: pystr and c cs
  assume d: "dropWhile isspace s = c # cs"
  have "length (dropWhile (\<lambda>x. \<not> isspace x) cs) \<le> length cs"
    by (rule length_dropWhile_le)
  moreover have "length (c # cs) \<le> length s"
    using length_dropWhile_le [of isspace s] by (simp add: d)
  ultimately show "(dropWhile (\<lambda>x. \<not> isspace x) cs, s) \<in> measure length"
    by simp
qed

declare str_split.simps [simp del]

text \<open>\<open>s.strip()\<close>: whitespace removed at both ends.\<close>

definition str_strip :: "pystr \<Rightarrow> pystr" where
  "str_strip s = rev (dropWhile isspace (rev (dropWhile isspace s)))"

section \<open>The tool host: \<open>server.py\<close>\<close>

text \<open>
  The two tools are modelled by the values they return; what they print to the server's
  log is left out.
\<close>

record analysis_result =
  word_count :: int
  char_count :: int

definition analyze_text :: "pystr \<Rightarrow> analysis_result" where
  "analyze_text text =
     (let word_count = int (length (str_split text));
          char_count = int (length text)
      in \<lparr>word_count = word_count, char_count = char_count\<rparr>)"

text \<open>The character class \<open>[.?!]\<close>.\<close>

definition is_terminator :: "codepoint \<Rightarrow> bool" where
  "is_terminator c \<longleftrightarrow> c = of_char CHR ''.'' \<or> c = of_char CHR ''?'' \<or> c = of_char CHR ''!''"

text \<open>
  \<open>re.split(r'[.?!]+', text)\<close>: look for the next match, which starts at the first
  terminator and, the repetition being greedy, takes the whole run of terminators; the
  text before the match is a piece, and the search goes on behind the match. When no
  match is left, the rest of the text is the last piece.
\<close>

function re_split :: "pystr \<Rightarrow> pystr list" where
  "re_split s =
     (case dropWhile (\<lambda>c. \<not> is_terminator c) s of
        [] \<Rightarrow> [s]
      | m # ms \<Rightarrow> takeWhile (\<lambda>c. \<not> is_terminator c) s # re_split (dropWhile is_terminator ms))"
  by pat_completeness auto
termination
proof (relation "measure length")
  show "wf (measure length)" by simp
next
  fix s :: pystr and m ms
  assume d: "dropWhile (\<lambda>c. \<not> is_terminator c) s = m # ms"
  have "length (dropWhile is_terminator ms) \<le> length ms"
    by (rule length_dropWhile_le)
  moreover have "length (m # ms) \<le> length s"
    using length_dropWhile_le [of "\<lambda>c. \<not> is_terminator c" s] by (simp add: d)
  ultimately show "(dropWhile is_terminator ms, s) \<in> measure length"
    by simp
qed

declare re_split.simps [simp del]

definition count_sentences :: "pystr \<Rightarrow> int" where
  "count_sentences text =
     (let sentences = re_split text;
          sentence_count = int (length (filter (\<lambda>s. str_strip s \<noteq> []) sentences))
      in sentence_count)"


subsection \<open>The two tools as the specification words them\<close>

text \<open>
  The whitespace-delimited tokens of a text are its maximal runs of characters that are
  not whitespace. Such a run starts at every position that holds a character other than
  whitespace and that is the first position or follows a whitespace character.
\<close>

definition token_starts :: "pystr \<Rightarrow> nat list" where
  "token_starts text =
     filter (\<lambda>i. \<not> isspace (text ! i) \<and> (i = 0 \<or> isspace (text ! (i - 1)))) [0..<length text]"

text \<open>The same count, read off in one pass: \<open>prev\<close> tells whether a token may start.\<close>

fun count_starts :: "bool \<Rightarrow> pystr \<Rightarrow> nat" where
  "count_starts prev [] = 0"
| "count_starts prev (c # cs) =
     (if \<not> isspace c \<and> prev then 1 else 0) + count_starts (isspace c) cs"

definition starts_after :: "bool \<Rightarrow> pystr \<Rightarrow> nat list" where
  "starts_after prev text =
     filter (\<lambda>i. \<not> isspace (text ! i) \<and> (if i = 0 then prev else isspace (text ! (i - 1))))
       [0..<length text]"

text \<open>
  The segments of a text split on maximal runs of terminators, character by character:
  a terminator closes the current segment unless the next character is a terminator of
  the same run; any other character goes into the current segment.
\<close>

fun segments :: "pystr \<Rightarrow> pystr list" where
  "segments [] = [[]]"
| "segments (c # cs) =
     (if is_terminator c then
        (case cs of
           [] \<Rightarrow> [] # segments cs
         | d # _ \<Rightarrow> if is_terminator d then segments cs else [] # segments cs)
      else
        (case segments cs of
           [] \<Rightarrow> [[c]]
         | seg # rest \<Rightarrow> (c # seg) # rest))"

text \<open>A segment is empty after trimming exactly when it holds whitespace only.\<close>

definition blank :: "pystr \<Rightarrow> bool" where
  "blank s = (filter (\<lambda>c. \<not> isspace c) s = [])"

section \<open>The broker: \<open>client.py\<close>\<close>

subsection \<open>Values, exceptions and the protocol's records\<close>

text \<open>
  The broker compares and concatenates its strings and never looks inside them, so names
  and messages are HOL strings. A schema is a Python dictionary of type
  \<open>Dict[str, Any]\<close>: its values are arbitrary JSON values. A dictionary is an
  association list in insertion order; no modelled operation looks inside a number, so
  numbers are integers.
\<close>

datatype json =
    JNull
  | JBool bool
  | JNumber int
  | JString string
  | JArray "json list"
  | JObject "(string \<times> json) list"

text \<open>
  The exceptions of the model are instances of Python's class \<open>Exception\<close>, which is
  what the handlers \<open>except Exception\<close> of the broker catch. An exception is its class
  and the text \<open>str(e)\<close>.
\<close>

datatype exn_class =
    AttributeError
  | UnboundLocalError
  | JSONDecodeError
  | ConnectionRefusedError
  | FileNotFoundError
  | EOFError
  | OtherError string

datatype exn = Exn (exn_class: exn_class) (exn_str: string)

fun class_name :: "exn_class \<Rightarrow> string" where
  "class_name AttributeError = ''AttributeError''"
| "class_name UnboundLocalError = ''UnboundLocalError''"
| "class_name JSONDecodeError = ''JSONDecodeError''"
| "class_name ConnectionRefusedError = ''ConnectionRefusedError''"
| "class_name FileNotFoundError = ''FileNotFoundError''"
| "class_name EOFError = ''EOFError''"
| "class_name (OtherError n) = n"

fun type_name :: "json \<Rightarrow> string" where
  "type_name JNull = ''NoneType''"
| "type_name (JBool b) = ''bool''"
| "type_name (JNumber n) = ''int''"
| "type_name (JString s) = ''str''"
| "type_name (JArray xs) = ''list''"
| "type_name (JObject kvs) = ''dict''"

definition quote :: string where
  "quote = [CHR 0x27]"

definition newline :: string where
  "newline = [CHR 0x0A]"

text \<open>Reading the attribute \<open>attr\<close> of a value that is not a dictionary.\<close>

definition no_attribute :: "json \<Rightarrow> string \<Rightarrow> exn" where
  "no_attribute v attr =
     Exn AttributeError
       (quote @ type_name v @ quote @ '' object has no attribute '' @ quote @ attr @ quote)"

text \<open>\<open>mcp_types.Tool\<close>, and the declaration handed to the model.\<close>

record tool =
  name :: string
  description :: "string option"
  inputSchema :: "(string \<times> json) list option"

record prop_definition =
  prop_type :: string
  prop_description :: json

record parameters =
  params_type :: string
  properties :: "(string \<times> prop_definition) list"
  required :: json

record function_declaration =
  fd_name :: string
  fd_description :: string
  fd_parameters :: parameters

record gemini_tool =
  function_declarations :: "function_declaration list"

subsection \<open>The schema translator\<close>

text \<open>The chain of comparisons on \<open>schema.get('type')\<close>; \<open>STRING\<close> is the default.\<close>

definition param_type :: "json option \<Rightarrow> string" where
  "param_type schema_type =
     (if schema_type = Some (JString ''number'') then ''NUMBER''
      else if schema_type = Some (JString ''integer'') then ''INTEGER''
      else if schema_type = Some (JString ''boolean'') then ''BOOLEAN''
      else if schema_type = Some (JString ''string'') then ''STRING''
      else if schema_type = Some (JString ''array'') then ''ARRAY''
      else if schema_type = Some (JString ''object'') then ''OBJECT''
      else ''STRING'')"

text \<open>
  The body of the loop for one parameter. \<open>schema.get\<close> exists on a dictionary only:
  on any other value the attribute lookup raises.
\<close>

definition prop_of_schema :: "json \<Rightarrow> exn + prop_definition" where
  "prop_of_schema schema =
     (case schema of
        JObject d \<Rightarrow>
          Inr \<lparr>prop_type = param_type (map_of d ''type''),
               prop_description =
                 (case map_of d ''description'' of None \<Rightarrow> JString [] | Some v \<Rightarrow> v)\<rparr>
      | _ \<Rightarrow> Inl (no_attribute schema ''get''))"

text \<open>
  The loop over \<open>inputSchema['properties'].items()\<close>; \<open>properties[name] = ...\<close>
  replaces the entry of a name that is there and appends a new one.
\<close>

fun translate_properties ::
  "(string \<times> json) list \<Rightarrow> (string \<times> prop_definition) list \<Rightarrow>
   exn + (string \<times> prop_definition) list" where
  "translate_properties [] props = Inr props"
| "translate_properties ((key, schema) # items) props =
     (case prop_of_schema schema of
        Inl e \<Rightarrow> Inl e
      | Inr prop \<Rightarrow> translate_properties items (AList.update key prop props))"

text \<open>
  The two local variables after the \<open>if\<close>. An absent or empty schema is false, and so
  is a schema without the key \<open>properties\<close>; \<open>required\<close> is read inside the
  \<open>if\<close> only.
\<close>

definition schema_parts ::
  "(string \<times> json) list option \<Rightarrow> exn + (string \<times> prop_definition) list \<times> json" where
  "schema_parts schema =
     (case schema of
        None \<Rightarrow> Inr ([], JArray [])
      | Some sch \<Rightarrow>
          if sch = [] then Inr ([], JArray [])
          else
            (case map_of sch ''properties'' of
               None \<Rightarrow> Inr ([], JArray [])
             | Some (JObject items) \<Rightarrow>
                 (case translate_properties items [] of
                    Inl e \<Rightarrow> Inl e
                  | Inr props \<Rightarrow>
                      Inr (props,
                           case map_of sch ''required'' of None \<Rightarrow> JArray [] | Some r \<Rightarrow> r))
             | Some v \<Rightarrow> Inl (no_attribute v ''items'')))"

definition mcp_tool_to_gemini_function :: "tool \<Rightarrow> exn + function_declaration" where
  "mcp_tool_to_gemini_function mcp_tool =
     (case schema_parts (inputSchema mcp_tool) of
        Inl e \<Rightarrow> Inl e
      | Inr (props, req) \<Rightarrow>
          Inr \<lparr>fd_name = name mcp_tool,
               fd_description = (case description mcp_tool of None \<Rightarrow> [] | Some d \<Rightarrow> d),
               fd_parameters = \<lparr>params_type = ''OBJECT'', properties = props, required = req\<rparr>\<rparr>)"

text \<open>The values on which \<open>get\<close> and \<open>items\<close> exist.\<close>

fun is_dict :: "json \<Rightarrow> bool" where
  "is_dict (JObject kvs) = True"
| "is_dict v = False"

subsection \<open>The model, the tool host and the session\<close>

text \<open>What a tool returns: \<open>mcp_types.CallToolResult\<close> and its content items.\<close>

datatype content_item = TextContent "string option" | ImageContent | EmbeddedResource

record call_tool_result =
  content :: "content_item list"
  isError :: bool

text \<open>
  What the model returns. A part carries a function call or not (the attribute is false
  when no call is set) and a text, empty when there is none; \<open>prompt_feedback\<close> is
  \<open>None\<close> when it is false, and otherwise its printed form.
\<close>

record function_call =
  fc_name :: string
  fc_args :: "(string \<times> json) list"

record part =
  part_function_call :: "function_call option"
  part_text :: string

record response =
  parts :: "part list"
  prompt_feedback :: "string option"

text \<open>
  What is sent to the model: the user's text, or the dictionary
  \<open>{"function_response": {"name": ..., "response": {"content": ...}}}\<close>.
\<close>

datatype message = UserText string | FunctionResponse string string

text \<open>
  What a run of the broker does, in order: a line printed, a line read, a message sent to
  the model with its \<open>tools\<close> argument, a tool called on the host, a traceback printed.
\<close>

datatype event =
    Print string
  | Input string
  | SendMessage message "gemini_tool list option"
  | CallTool string "(string \<times> json) list"
  | Traceback exn

text \<open>
  The external collaborators. Each call takes the state of the world outside the broker
  and returns the new one, with a value or the exception raised. \<open>json_loads\<close> and
  \<open>json_dumps\<close> are the library's decoder and its encoder with \<open>indent=2\<close>;
  \<open>repr_dict\<close> is the printed form of a dictionary.
\<close>

record ('w, 'j) env =
  stdio_client :: "'w \<Rightarrow> string \<Rightarrow> exn option \<times> 'w"
  initialize :: "'w \<Rightarrow> exn option \<times> 'w"
  list_tools :: "'w \<Rightarrow> (exn + tool list) \<times> 'w"
  send_message_async ::
    "'w \<Rightarrow> message \<Rightarrow> gemini_tool list option \<Rightarrow> (exn + response) \<times> 'w"
  call_tool :: "'w \<Rightarrow> string \<Rightarrow> (string \<times> json) list \<Rightarrow> (exn + call_tool_result) \<times> 'w"
  json_loads :: "string \<Rightarrow> exn + 'j"
  json_dumps :: "'j \<Rightarrow> string"
  repr_dict :: "(string \<times> json) list \<Rightarrow> string"

text \<open>
  The variables of \<open>main\<close> that the chat loop reads or writes. \<open>response\<close> is
  \<open>None\<close> as long as the variable is unbound; it keeps its value from one turn to the
  next.
\<close>

record 'w session =
  world :: 'w
  mcp_session :: bool
  gemini_tools_list :: "gemini_tool list"
  response :: "response option"

subsection \<open>One turn of the chat loop\<close>

text \<open>\<open>tools=gemini_tools_list if gemini_tools_list else None\<close>\<close>

definition tools_arg :: "gemini_tool list \<Rightarrow> gemini_tool list option" where
  "tools_arg gtl = (if gtl \<noteq> [] then Some gtl else None)"

definition no_parsable_content :: string where
  "no_parsable_content = ''Error: Tool executed but no parsable content returned.''"

definition failed_on_server :: string where
  "failed_on_server = ''Tool execution failed on server.''"

definition str_bool :: "bool \<Rightarrow> string" where
  "str_bool b = (if b then ''True'' else ''False'')"

text \<open>
  The value of \<open>result_content_str\<close> after the tool's result is processed. Only
  \<open>json.JSONDecodeError\<close> is passed over; any other exception of the decoder leaves the
  block.
\<close>

definition result_content_str :: "('w, 'j) env \<Rightarrow> call_tool_result \<Rightarrow> exn + string" where
  "result_content_str env tool_call_result =
     (case content tool_call_result of
        first_content # _ \<Rightarrow>
          (case first_content of
             TextContent (Some t) \<Rightarrow>
               (case json_loads env t of
                  Inr parsed \<Rightarrow> Inr (json_dumps env parsed)
                | Inl e \<Rightarrow> if exn_class e = JSONDecodeError then Inr t else Inl e)
           | _ \<Rightarrow> Inr no_parsable_content)
      | [] \<Rightarrow>
          if isError tool_call_result then Inr failed_on_server else Inr no_parsable_content)"

text \<open>The report after the second call of the model.\<close>

definition no_final_response :: string where
  "no_final_response =
     ''[Client] Gemini Chat did not provide a final text response after tool call.''"

definition llm_response :: "string \<Rightarrow> string" where
  "llm_response t = newline @ ''LLM Response:'' @ newline @ t @ newline"

definition final_report :: "response \<Rightarrow> event" where
  "final_report resp =
     (case parts resp of
        [] \<Rightarrow> Print no_final_response
      | p # _ \<Rightarrow> if part_text p \<noteq> [] then Print (llm_response (part_text p))
                 else Print no_final_response)"

text \<open>The lines printed around the call of a tool.\<close>

definition calling_tool :: "string \<Rightarrow> string" where
  "calling_tool tool_name = ''[Client] Calling MCP tool '' @ quote @ tool_name @ quote @ ''...''"

definition tool_result :: "bool \<Rightarrow> string \<Rightarrow> string" where
  "tool_result tool_failed s =
     ''[Client] MCP Tool Result (isError='' @ str_bool tool_failed @ ''): '' @ s"

definition sending_result :: string where
  "sending_result = ''[Client] Sending tool result back to Gemini Chat...''"

definition tool_error :: "string \<Rightarrow> exn \<Rightarrow> string" where
  "tool_error tool_name tool_err =
     ''[Client] Error calling MCP tool '' @ quote @ tool_name @ quote @ '': '' @ exn_str tool_err"

text \<open>
  The body of the inner \<open>try\<close>: the call of the tool, the processing of its result and
  the second call of the model. The third component is the exception that leaves the
  body, if any.
\<close>

definition call_and_relay ::
  "('w, 'j) env \<Rightarrow> 'w session \<Rightarrow> string \<Rightarrow> (string \<times> json) list \<Rightarrow>
   'w session \<times> event list \<times> exn option" where
  "call_and_relay env st tool_name tool_args =
     (case call_tool env (world st) tool_name tool_args of
        (Inl e, w1) \<Rightarrow> (st\<lparr>world := w1\<rparr>, [CallTool tool_name tool_args], Some e)
      | (Inr tool_call_result, w1) \<Rightarrow>
          (case result_content_str env tool_call_result of
             Inl e \<Rightarrow> (st\<lparr>world := w1\<rparr>, [CallTool tool_name tool_args], Some e)
           | Inr s \<Rightarrow>
               (let function_response = FunctionResponse tool_name s;
                    tools = tools_arg (gemini_tools_list st);
                    ev =
                      [CallTool tool_name tool_args,
                       Print (tool_result (isError tool_call_result) s),
                       Print sending_result,
                       SendMessage function_response tools]
                in case send_message_async env w1 function_response tools of
                     (Inl e, w2) \<Rightarrow> (st\<lparr>world := w2\<rparr>, ev, Some e)
                   | (Inr resp, w2) \<Rightarrow>
                       (st\<lparr>world := w2, response := Some resp\<rparr>, ev @ [final_report resp], None))))"

definition tool_apology :: string where
  "tool_apology = ''LLM Response: Sorry, I encountered an error trying to use the tool.''"

definition no_session :: string where
  "no_session = ''[Client] Error: MCP Session not available to call tool.''"

definition no_tools_apology :: string where
  "no_tools_apology = ''LLM Response: Sorry, I cannot currently use tools.''"

text \<open>The dispatch of a requested call, with the handler of the inner \<open>try\<close>.\<close>

definition tool_dispatch ::
  "('w, 'j) env \<Rightarrow> 'w session \<Rightarrow> string \<Rightarrow> (string \<times> json) list \<Rightarrow> 'w session \<times> event list" where
  "tool_dispatch env st tool_name tool_args =
     (if mcp_session st then
        (case call_and_relay env st tool_name tool_args of
           (st', ev, None) \<Rightarrow> (st', Print (calling_tool tool_name) # ev)
         | (st', ev, Some tool_err) \<Rightarrow>
             (st',
              Print (calling_tool tool_name) # ev @
              [Print (tool_error tool_name tool_err), Print tool_apology]))
      else (st, [Print no_session, Print no_tools_apology]))"

definition unexpected_response :: string where
  "unexpected_response =
     ''[Client] Received unexpected or empty response part from Gemini Chat.''"

definition sending_query :: string where
  "sending_query = ''[Client] Sending query to Gemini Chat...''"

definition requested_call :: "('w, 'j) env \<Rightarrow> function_call \<Rightarrow> string" where
  "requested_call env fc =
     ''[Client] Gemini requested tool call: '' @ fc_name fc @ ''('' @ repr_dict env (fc_args fc)
     @ '')''"

text \<open>
  The body of the outer \<open>try\<close> of a turn: the first call of the model and the
  processing of its response.
\<close>

definition turn_body ::
  "('w, 'j) env \<Rightarrow> 'w session \<Rightarrow> string \<Rightarrow> 'w session \<times> event list \<times> exn option" where
  "turn_body env st user_query =
     (let tools = tools_arg (gemini_tools_list st);
          ev = [Print sending_query, SendMessage (UserText user_query) tools]
      in case send_message_async env (world st) (UserText user_query) tools of
           (Inl e, w1) \<Rightarrow> (st\<lparr>world := w1\<rparr>, ev, Some e)
         | (Inr resp, w1) \<Rightarrow>
             (let st1 = st\<lparr>world := w1, response := Some resp\<rparr>
              in case parts resp of
                   [] \<Rightarrow> (st1, ev @ [Print unexpected_response], None)
                 | response_part # _ \<Rightarrow>
                     (case part_function_call response_part of
                        Some fc \<Rightarrow>
                          (let (st2, ev2) = tool_dispatch env st1 (fc_name fc) (fc_args fc)
                           in (st2,
                               ev @ [Print (requested_call env fc)] @ ev2,
                               None))
                      | None \<Rightarrow>
                          if part_text response_part \<noteq> [] then
                            (st1, ev @ [Print (llm_response (part_text response_part))], None)
                          else (st1, ev @ [Print unexpected_response], None))))"

text \<open>
  The handler of the outer \<open>try\<close> reads \<open>response\<close>, which is unbound when the first
  call of the first turn raised, and passes over an \<open>AttributeError\<close>.
\<close>

definition unbound_response :: exn where
  "unbound_response =
     Exn UnboundLocalError
       (''cannot access local variable '' @ quote @ ''response'' @ quote
        @ '' where it is not associated with a value'')"

definition read_feedback :: "'w session \<Rightarrow> exn + event list" where
  "read_feedback st =
     (case response st of
        None \<Rightarrow> Inl unbound_response
      | Some resp \<Rightarrow>
          (case prompt_feedback resp of
             None \<Rightarrow> Inr []
           | Some fb \<Rightarrow> Inr [Print (''Gemini Prompt Feedback: '' @ fb)]))"

definition model_apology :: string where
  "model_apology =
     ''LLM Response: Sorry, an error occurred while processing your request with the language model.''"

definition chat_error :: "exn \<Rightarrow> string" where
  "chat_error e =
     ''[Client] Error during Gemini chat interaction: '' @ class_name (exn_class e) @ '': ''
     @ exn_str e"

definition feedback_error :: "exn \<Rightarrow> string" where
  "feedback_error inner_e = ''[Client] Error accessing feedback: '' @ exn_str inner_e"

definition turn_handler :: "'w session \<Rightarrow> exn \<Rightarrow> event list \<times> exn option" where
  "turn_handler st e =
     (Print (chat_error e) #
      (case read_feedback st of
         Inr ev \<Rightarrow> ev
       | Inl inner_e \<Rightarrow>
           if exn_class inner_e = AttributeError then []
           else [Print (feedback_error inner_e)]) @
      [Print model_apology],
      None)"

text \<open>One turn: the outer \<open>try\<close> with its handler.\<close>

definition turn ::
  "('w, 'j) env \<Rightarrow> 'w session \<Rightarrow> string \<Rightarrow> 'w session \<times> event list \<times> exn option" where
  "turn env st user_query =
     (case turn_body env st user_query of
        (st', ev, None) \<Rightarrow> (st', ev, None)
      | (st', ev, Some e) \<Rightarrow>
          (let (ev', x) = turn_handler st' e in (st', ev @ ev', x)))"

subsection \<open>The chat loop and \<open>main\<close>\<close>

definition lower_char :: "char \<Rightarrow> char" where
  "lower_char c =
     (if (65::nat) \<le> of_char c \<and> of_char c \<le> (90::nat) then char_of (of_char c + (32::nat))
      else c)"

definition is_quit :: "string \<Rightarrow> bool" where
  "is_quit user_query \<longleftrightarrow> map lower_char user_query = ''quit''"

definition end_of_input :: exn where
  "end_of_input = Exn EOFError ''EOF when reading a line''"

text \<open>
  The loop \<open>while True\<close> over the lines of the standard input: \<open>input\<close> returns the
  next line, and raises \<open>EOFError\<close> when no line is left. \<open>input\<close> stands outside
  the \<open>try\<close> of the turn.
\<close>

fun chat_loop ::
  "('w, 'j) env \<Rightarrow> 'w session \<Rightarrow> string list \<Rightarrow> 'w session \<times> event list \<times> exn option" where
  "chat_loop env st [] = (st, [], Some end_of_input)"
| "chat_loop env st (user_query # rest) =
     (if is_quit user_query then (st, [Input user_query], None)
      else if user_query = [] then
        (let (st', ev, x) = chat_loop env st rest in (st', Input user_query # ev, x))
      else
        (case turn env st user_query of
           (st1, ev1, Some e) \<Rightarrow> (st1, Input user_query # ev1, Some e)
         | (st1, ev1, None) \<Rightarrow>
             (let (st', ev, x) = chat_loop env st1 rest
              in (st', Input user_query # ev1 @ ev, x))))"

text \<open>Step 6: the tools of the server; \<open>available_mcp_tools\<close> is empty before.\<close>

definition discovering :: string where
  "discovering = ''[Client] Discovering tools from server...''"

definition listing_error :: "exn \<Rightarrow> string" where
  "listing_error e = ''[Client] Error listing tools: '' @ exn_str e"

definition no_tools_discovered :: string where
  "no_tools_discovered = ''[Client] No tools discovered from this server.''"

definition tool_lines :: "tool \<Rightarrow> event list" where
  "tool_lines t =
     [Print (''  - Name: '' @ name t),
      Print (''    Description: '' @
             (case description t of
                None \<Rightarrow> ''No description''
              | Some d \<Rightarrow> if d = [] then ''No description'' else d))]"

definition discover_tools :: "('w, 'j) env \<Rightarrow> 'w \<Rightarrow> tool list \<times> event list \<times> 'w" where
  "discover_tools env w =
     (case list_tools env w of
        (Inl e, w1) \<Rightarrow> ([], [Print discovering, Print (listing_error e)], w1)
      | (Inr available_mcp_tools, w1) \<Rightarrow>
          (available_mcp_tools,
           Print discovering #
           (if available_mcp_tools \<noteq> [] then
              [Print (replicate 20 CHR ''-''), Print ''Available Tools from this Server:''] @
              concat (map tool_lines available_mcp_tools) @ [Print (replicate 20 CHR ''-'')]
            else [Print no_tools_discovered]),
           w1))"

text \<open>Step 7: the list comprehension stops at the first tool whose translation raises.\<close>

fun gemini_functions_of :: "tool list \<Rightarrow> exn + function_declaration list" where
  "gemini_functions_of [] = Inr []"
| "gemini_functions_of (t # ts) =
     (case mcp_tool_to_gemini_function t of
        Inl e \<Rightarrow> Inl e
      | Inr f \<Rightarrow>
          (case gemini_functions_of ts of
             Inl e \<Rightarrow> Inl e
           | Inr fs \<Rightarrow> Inr (f # fs)))"

definition tools_converted :: string where
  "tools_converted = ''[Client] Converted MCP tools for Gemini.''"

definition no_tools_converted :: string where
  "no_tools_converted = ''[Client] No tools discovered or converted for Gemini.''"

definition make_tools_list :: "function_declaration list \<Rightarrow> gemini_tool list \<times> event list" where
  "make_tools_list gemini_functions =
     (if gemini_functions \<noteq> [] then
        ([\<lparr>function_declarations = gemini_functions\<rparr>], [Print tools_converted])
      else ([], [Print no_tools_converted]))"

text \<open>
  The variables of \<open>main\<close> when the loop starts: the session is set, \<open>response\<close> is
  unbound.
\<close>

definition session_start :: "'w \<Rightarrow> gemini_tool list \<Rightarrow> 'w session" where
  "session_start w gtl =
     \<lparr>world = w, mcp_session = True, gemini_tools_list = gtl, response = None\<rparr>"

definition transport_established :: string where
  "transport_established = ''[Client] Stdio transport established.''"

definition initializing :: string where
  "initializing = ''[Client] Initializing MCP session...''"

definition initialized :: string where
  "initialized = ''[Client] MCP Session Initialized.''"

definition client_ready :: "event list" where
  "client_ready =
     [Print (newline @ ''--- MCP Client Ready (Using Gemini Chat) ---''),
      Print (''Enter your query, or type '' @ quote @ ''quit'' @ quote @ '' to exit.'')]"

text \<open>The body of the \<open>try\<close> of \<open>main\<close>, from the connection to the end of the loop.\<close>

definition session_body ::
  "('w, 'j) env \<Rightarrow> 'w \<Rightarrow> string \<Rightarrow> string list \<Rightarrow> event list \<times> exn option" where
  "session_body env w server_script_path inputs =
     (case stdio_client env w server_script_path of
        (Some e, w1) \<Rightarrow> ([], Some e)
      | (None, w1) \<Rightarrow>
          (let ev1 = [Print transport_established, Print initializing]
           in case initialize env w1 of
                (Some e, w2) \<Rightarrow> (ev1, Some e)
              | (None, w2) \<Rightarrow>
                  (let (available_mcp_tools, ev2, w3) = discover_tools env w2;
                       ev3 = ev1 @ [Print initialized] @ ev2
                   in case gemini_functions_of available_mcp_tools of
                        Inl e \<Rightarrow> (ev3, Some e)
                      | Inr gemini_functions \<Rightarrow>
                          (let (gtl, ev4) = make_tools_list gemini_functions;
                               (st', ev5, x) = chat_loop env (session_start w3 gtl) inputs
                           in (ev3 @ ev4 @ client_ready @ ev5, x)))))"

text \<open>The handlers of \<open>main\<close> and its \<open>finally\<close>.\<close>

definition unexpected_error :: "exn \<Rightarrow> string" where
  "unexpected_error e = ''[Client] An unexpected error occurred: '' @ exn_str e"

definition main_handler :: "string \<Rightarrow> exn \<Rightarrow> event list" where
  "main_handler server_script_path e =
     (if exn_class e = ConnectionRefusedError then
        [Print (''[Client] Error: Connection refused. Is the server script path correct (''
                @ quote @ server_script_path @ quote
                @ '') and is Python installed/runnable?'')]
      else if exn_class e = FileNotFoundError then
        [Print (''[Client] Error: Server script not found at '' @ quote @ server_script_path
                @ quote @ ''. Please check the path.'')]
      else [Print (unexpected_error e), Traceback e])"

definition attempting :: "string \<Rightarrow> string" where
  "attempting server_script_path =
     ''[Client] Attempting to connect to server: '' @ server_script_path"

definition exiting :: string where
  "exiting = ''[Client] Exiting.''"

text \<open>
  \<open>main\<close>, with the arguments of the command line and the lines of the standard input;
  the result is what the run does and the status of the process.
\<close>

definition main :: "('w, 'j) env \<Rightarrow> 'w \<Rightarrow> string list \<Rightarrow> string list \<Rightarrow> event list \<times> int" where
  "main env w argv inputs =
     (if length argv < 2 then
        ([Print ''Usage: python client.py <path_to_server_script.py>''], 1)
      else
        (let server_script_path = argv ! 1;
             (ev, x) = session_body env w server_script_path inputs
         in (Print (attempting server_script_path) # ev @
             (case x of None \<Rightarrow> [] | Some e \<Rightarrow> main_handler server_script_path e) @
             [Print exiting],
             0)))"

text \<open>The calls of tools in a run, counted.\<close>

fun is_call_tool :: "event \<Rightarrow> bool" where
  "is_call_tool (CallTool tool_name tool_args) = True"
| "is_call_tool e = False"

definition tool_dispatches :: "event list \<Rightarrow> nat" where
  "tool_dispatches ev = length (filter is_call_tool ev)"

subsection \<open>A scripted world\<close>

text \<open>
  For runs on concrete inputs the collaborators follow a script: the outcome of the
  enumeration of the tools, and the outcomes of the calls of the model and of the tool
  host, taken in order. A call after the end of its script raises.
\<close>

record script =
  tools_outcome :: "exn + tool list"
  model_outcomes :: "(exn + response) list"
  tool_outcomes :: "(exn + call_tool_result) list"

definition script_exhausted :: exn where
  "script_exhausted = Exn (OtherError ''RuntimeError'') ''no outcome left''"

text \<open>
  The decoder of the scripted world knows the documents that are one scalar: a decimal
  numeral without sign and without leading zero, \<open>true\<close>, \<open>false\<close> and \<open>null\<close>.
  Encoding such a value gives the document back, so the decoded value is kept as its
  encoding. Every other text is refused, and the concrete runs below use the decoder on
  scalars and on texts that are not JSON only.
\<close>

definition is_digit :: "char \<Rightarrow> bool" where
  "is_digit c \<longleftrightarrow> (48::nat) \<le> of_char c \<and> of_char c \<le> (57::nat)"

definition is_scalar :: "string \<Rightarrow> bool" where
  "is_scalar s \<longleftrightarrow>
     s = ''true'' \<or> s = ''false'' \<or> s = ''null'' \<or> s = ''0'' \<or>
     (s \<noteq> [] \<and> list_all is_digit s \<and> hd s \<noteq> CHR ''0'')"

definition scalar_loads :: "string \<Rightarrow> exn + string" where
  "scalar_loads s =
     (if is_scalar s then Inr s else Inl (Exn JSONDecodeError ''Expecting value''))"

definition scripted :: "(script, string) env" where
  "scripted =
     \<lparr>stdio_client = (\<lambda>w path. (None, w)),
      initialize = (\<lambda>w. (None, w)),
      list_tools = (\<lambda>w. (tools_outcome w, w)),
      send_message_async =
        (\<lambda>w m t.
           case model_outcomes w of
             [] \<Rightarrow> (Inl script_exhausted, w)
           | r # rs \<Rightarrow> (r, w\<lparr>model_outcomes := rs\<rparr>)),
      call_tool =
        (\<lambda>w n a.
           case tool_outcomes w of
             [] \<Rightarrow> (Inl script_exhausted, w)
           | r # rs \<Rightarrow> (r, w\<lparr>tool_outcomes := rs\<rparr>)),
      json_loads = scalar_loads,
      json_dumps = (\<lambda>s. s),
      repr_dict = (\<lambda>d. ''{...}'')\<rparr>"

text \<open>
  The tool \<open>count_sentences\<close> as the server declares it, the model's request to call
  it, and a plain answer of the model.
\<close>

definition count_sentences_tool :: tool where
  "count_sentences_tool =
     \<lparr>name = ''count_sentences'',
      description = Some ''Counts the number of sentences in the provided text.'',
      inputSchema =
        Some [(''properties'',
               JObject [(''text'', JObject [(''title'', JString ''Text''),
                                            (''type'', JString ''string'')])]),
              (''required'', JArray [JString ''text'']),
              (''title'', JString ''count_sentencesArguments''),
              (''type'', JString ''object'')]\<rparr>"

definition the_args :: "(string \<times> json) list" where
  "the_args = [(''text'', JString ''Hi. Bye!'')]"

definition request_count :: response where
  "request_count =
     \<lparr>parts =
        [\<lparr>part_function_call = Some \<lparr>fc_name = ''count_sentences'', fc_args = the_args\<rparr>,
          part_text = []\<rparr>],
      prompt_feedback = None\<rparr>"

definition answer :: "string \<Rightarrow> response" where
  "answer t = \<lparr>parts = [\<lparr>part_function_call = None, part_text = t\<rparr>], prompt_feedback = None\<rparr>"

text \<open>The declarations that the broker hands to the model for this tool.\<close>

definition count_declarations :: "gemini_tool list" where
  "count_declarations =
     [\<lparr>function_declarations =
         [\<lparr>fd_name = ''count_sentences'',
           fd_description = ''Counts the number of sentences in the provided text.'',
           fd_parameters =
             \<lparr>params_type = ''OBJECT'',
              properties = [(''text'', \<lparr>prop_type = ''STRING'', prop_description = JString []\<rparr>)],
              required = JArray [JString ''text'']\<rparr>\<rparr>]\<rparr>]"

text \<open>
  Scripts. In the first the model asks for the tool, and asks again when it has the
  count. In the second the tool host flags an error and returns no content; in the third
  the call of the tool raises. In the fourth the model is out of reach for one call. In
  the fifth the enumeration of the tools raises. In the sixth the tool returns a result
  without content, in the last the server declares no tool.
\<close>

definition asks_twice :: script where
  "asks_twice =
     \<lparr>tools_outcome = Inr [count_sentences_tool],
      model_outcomes = [Inr request_count, Inr request_count],
      tool_outcomes = [Inr \<lparr>content = [TextContent (Some ''2'')], isError = False\<rparr>]\<rparr>"


definition connection_closed :: exn where
  "connection_closed = Exn (OtherError ''McpError'') ''Connection closed''"

definition tool_call_raises :: script where
  "tool_call_raises =
     \<lparr>tools_outcome = Inr [count_sentences_tool],
      model_outcomes = [Inr request_count],
      tool_outcomes = [Inl connection_closed]\<rparr>"

definition unavailable :: exn where
  "unavailable = Exn (OtherError ''ServiceUnavailable'') ''503 The model is overloaded.''"

definition model_fails_once :: script where
  "model_fails_once =
     \<lparr>tools_outcome = Inr [count_sentences_tool],
      model_outcomes = [Inl unavailable, Inr (answer ''Hello!'')],
      tool_outcomes = []\<rparr>"

definition enumeration_raises :: script where
  "enumeration_raises =
     \<lparr>tools_outcome = Inl connection_closed,
      model_outcomes = [Inr (answer ''Hello!'')],
      tool_outcomes = []\<rparr>"


definition no_tools :: script where
  "no_tools =
     \<lparr>tools_outcome = Inr [],
      model_outcomes = [Inr (answer ''Hello!'')],
      tool_outcomes = []\<rparr>"







section \<open>Verification of the tool host\<close>

subsection \<open>Counting words\<close>

lemma count_starts_skip_space: "count_starts True (dropWhile isspace s) = count_starts True s"
  by (induction s) auto

lemma count_starts_skip_token:
  "count_starts True (dropWhile (\<lambda>x. \<not> isspace x) s) = count_starts False s"
  by (induction s) auto

lemma length_str_split: "length (str_split s) = count_starts True s"
proof (induction s rule: str_split.induct)
  case (1 s)
  show ?case
  proof (cases "dropWhile isspace s")
    case Nil
    have "str_split s = []"
      by (subst str_split.simps) (simp only: Nil list.case)
    moreover have "count_starts True s = count_starts True []"
      using count_starts_skip_space [of s] by (simp only: Nil)
    ultimately show ?thesis by simp
  next
    case (Cons c cs)
    have "\<not> isspace c"
      using hd_dropWhile [of isspace s] by (simp add: Cons)
    have "str_split s =
        (c # takeWhile (\<lambda>x. \<not> isspace x) cs) # str_split (dropWhile (\<lambda>x. \<not> isspace x) cs)"
      by (subst str_split.simps) (simp only: Cons list.case)
    moreover have "length (str_split (dropWhile (\<lambda>x. \<not> isspace x) cs)) = count_starts False cs"
      using "1.IH" [OF Cons] by (simp add: count_starts_skip_token)
    moreover have "count_starts True s = count_starts True (c # cs)"
      using count_starts_skip_space [of s] by (simp only: Cons)
    ultimately show ?thesis
      using \<open>\<not> isspace c\<close> by simp
  qed
qed

lemma length_starts_after: "length (starts_after prev s) = count_starts prev s"
proof (induction s arbitrary: prev)
  case Nil
  show ?case by (simp add: starts_after_def)
next
  case (Cons c cs)
  have "[0..<length (c # cs)] = 0 # map Suc [0..<length cs]"
    by (simp add: upt_conv_Cons map_Suc_upt del: upt_Suc)
  then have "length (starts_after prev (c # cs)) =
      (if \<not> isspace c \<and> prev then 1 else 0) + length (starts_after (isspace c) cs)"
    unfolding starts_after_def
    by (auto simp add: filter_map comp_def nth_Cons' intro!: arg_cong [where f = length] filter_cong)
  then show ?case by (simp add: Cons.IH)
qed

lemma length_token_starts: "length (token_starts s) = count_starts True s"
proof -
  have "token_starts s = starts_after True s"
    unfolding token_starts_def starts_after_def by (rule filter_cong) auto
  then show ?thesis by (simp add: length_starts_after)
qed

text \<open>
  C4: \<open>analyze_text\<close> returns as \<open>word_count\<close> the number of whitespace-delimited
  tokens of the text, one for every position where a run of characters other than
  whitespace starts, and as \<open>char_count\<close> the length of the text, whitespace included.
  The empty text gives 0 and 0, and \<open>a b  c\<close> gives 3 and 6.
\<close>

theorem analyze_text_counts:
  "word_count (analyze_text text) = int (length (token_starts text)) \<and>
   char_count (analyze_text text) = int (length text) \<and>
   analyze_text (py []) = \<lparr>word_count = 0, char_count = 0\<rparr> \<and>
   analyze_text (py ''a b  c'') = \<lparr>word_count = 3, char_count = 6\<rparr>"
proof -
  have "word_count (analyze_text text) = int (length (token_starts text))"
    by (simp add: analyze_text_def length_str_split length_token_starts)
  moreover have "char_count (analyze_text text) = int (length text)"
    by (simp add: analyze_text_def)
  moreover have "analyze_text (py []) = \<lparr>word_count = 0, char_count = 0\<rparr>"
    by code_simp
  moreover have "analyze_text (py ''a b  c'') = \<lparr>word_count = 3, char_count = 6\<rparr>"
    by code_simp
  ultimately show ?thesis by simp
qed

subsection \<open>Counting sentences\<close>

lemma re_split_plain:
  assumes "\<not> is_terminator c"
  shows "re_split (c # cs) = (case re_split cs of [] \<Rightarrow> [[c]] | seg # rest \<Rightarrow> (c # seg) # rest)"
proof (cases "dropWhile (\<lambda>c. \<not> is_terminator c) cs")
  case Nil
  have "re_split (c # cs) = [c # cs]"
    by (subst re_split.simps) (simp add: assms Nil del: dropWhile_eq_Nil_conv)
  moreover have "re_split cs = [cs]"
    by (subst re_split.simps) (simp add: Nil del: dropWhile_eq_Nil_conv)
  ultimately show ?thesis by simp
next
  case (Cons m ms)
  have "re_split (c # cs) =
      (c # takeWhile (\<lambda>c. \<not> is_terminator c) cs) # re_split (dropWhile is_terminator ms)"
    by (subst re_split.simps) (simp add: assms Cons)
  moreover have "re_split cs =
      takeWhile (\<lambda>c. \<not> is_terminator c) cs # re_split (dropWhile is_terminator ms)"
    by (subst re_split.simps) (simp add: Cons)
  ultimately show ?thesis by simp
qed

lemma re_split_terminator:
  assumes "is_terminator c"
  shows "re_split (c # cs) = [] # re_split (dropWhile is_terminator cs)"
  by (subst re_split.simps) (simp add: assms)

lemma segments_terminator:
  "is_terminator c \<Longrightarrow> segments (c # cs) = [] # segments (dropWhile is_terminator cs)"
  by (induction cs arbitrary: c) (auto split: list.splits)

lemma re_split_segments: "re_split s = segments s"
proof (induction "length s" arbitrary: s rule: less_induct)
  case less
  show ?case
  proof (cases s)
    case Nil
    then show ?thesis by (subst re_split.simps) simp
  next
    case (Cons c cs)
    show ?thesis
    proof (cases "is_terminator c")
      case True
      have "length (dropWhile is_terminator cs) < length s"
        using length_dropWhile_le [of is_terminator cs] by (simp add: Cons)
      then have "re_split (dropWhile is_terminator cs) = segments (dropWhile is_terminator cs)"
        by (rule less)
      with True show ?thesis
        by (simp only: Cons re_split_terminator segments_terminator)
    next
      case False
      have "re_split cs = segments cs"
        by (rule less) (simp add: Cons)
      with False show ?thesis
        by (simp add: Cons re_split_plain)
    qed
  qed
qed

lemma str_strip_empty: "str_strip s = [] \<longleftrightarrow> blank s"
proof
  assume "str_strip s = []"
  then have "\<forall>c\<in>set (dropWhile isspace s). isspace c"
    by (simp add: str_strip_def)
  then have "dropWhile isspace s = []"
    by (metis dropWhile_eq_Nil_conv dropWhile_idem)
  then show "blank s"
    by (simp add: blank_def filter_empty_conv)
next
  assume "blank s"
  then have "dropWhile isspace s = []"
    by (simp add: blank_def filter_empty_conv)
  then show "str_strip s = []"
    unfolding str_strip_def by (simp only: rev.simps dropWhile.simps)
qed

text \<open>
  C3: \<open>count_sentences\<close> returns the number of segments that hold a character other
  than whitespace, the segments being what is left of the text between its maximal runs
  of the terminators \<open>.\<close>, \<open>?\<close> and \<open>!\<close>. The three examples of the specification
  give 3, 0 and 1.
\<close>

theorem count_sentences_segments:
  "count_sentences text = int (length (filter (\<lambda>s. \<not> blank s) (segments text))) \<and>
   count_sentences (py ''Hello. How are you? Fine!'') = 3 \<and>
   count_sentences (py ''...'') = 0 \<and>
   count_sentences (py ''No terminator'') = 1"
proof -
  have "count_sentences text = int (length (filter (\<lambda>s. \<not> blank s) (segments text)))"
    by (simp add: count_sentences_def re_split_segments str_strip_empty)
  moreover have "count_sentences (py ''Hello. How are you? Fine!'') = 3"
    by code_simp
  moreover have "count_sentences (py ''...'') = 0"
    by code_simp
  moreover have "count_sentences (py ''No terminator'') = 1"
    by code_simp
  ultimately show ?thesis by simp
qed

section \<open>Verification of the broker\<close>

subsection \<open>The schema translator\<close>

lemma update_fresh: "key \<notin> fst ` set props \<Longrightarrow> AList.update key v props = props @ [(key, v)]"
  by (induction props) auto

lemma translate_properties_objects:
  assumes "distinct (map fst items)"
    and "list_all is_dict (map snd items)"
    and "fst ` set items \<inter> fst ` set props = {}"
  shows "\<exists>new. translate_properties items props = Inr (props @ new) \<and>
           map fst new = map fst items \<and>
           (\<forall>key d. (key, JObject d) \<in> set items \<longrightarrow>
              map_of new key =
                Some \<lparr>prop_type = param_type (map_of d ''type''),
                      prop_description =
                        (case map_of d ''description'' of None \<Rightarrow> JString [] | Some v \<Rightarrow> v)\<rparr>)"
  using assms
proof (induction items arbitrary: props)
  case Nil
  then show ?case by simp
next
  case (Cons item items)
  obtain key schema where item: "item = (key, schema)" by (cases item)
  from Cons.prems(2) item obtain d where d: "schema = JObject d"
    by (cases schema) auto
  define p where "p = \<lparr>prop_type = param_type (map_of d ''type''),
      prop_description = (case map_of d ''description'' of None \<Rightarrow> JString [] | Some v \<Rightarrow> v)\<rparr>"
  have step: "prop_of_schema schema = Inr p"
    by (simp add: prop_of_schema_def d p_def)
  have fresh: "key \<notin> fst ` set props"
    using Cons.prems(3) item by auto
  have upd: "AList.update key p props = props @ [(key, p)]"
    by (rule update_fresh [OF fresh])
  have "distinct (map fst items)"
    using Cons.prems(1) by simp
  moreover have "list_all is_dict (map snd items)"
    using Cons.prems(2) by simp
  moreover have "fst ` set items \<inter> fst ` set (props @ [(key, p)]) = {}"
    using Cons.prems(1,3) item by auto
  ultimately obtain new where new:
    "translate_properties items (props @ [(key, p)]) = Inr ((props @ [(key, p)]) @ new)"
    "map fst new = map fst items"
    "\<forall>k d. (k, JObject d) \<in> set items \<longrightarrow>
       map_of new k =
         Some \<lparr>prop_type = param_type (map_of d ''type''),
               prop_description =
                 (case map_of d ''description'' of None \<Rightarrow> JString [] | Some v \<Rightarrow> v)\<rparr>"
    using Cons.IH [of "props @ [(key, p)]"] by blast
  have notin: "key \<notin> fst ` set items"
    using Cons.prems(1) item by (simp add: image_iff)
  have "translate_properties (item # items) props = Inr (props @ ((key, p) # new))"
    by (simp add: item step upd new(1))
  moreover have "map fst ((key, p) # new) = map fst (item # items)"
    by (simp add: item new(2))
  moreover have "\<forall>k d'. (k, JObject d') \<in> set (item # items) \<longrightarrow>
       map_of ((key, p) # new) k =
         Some \<lparr>prop_type = param_type (map_of d' ''type''),
               prop_description =
                 (case map_of d' ''description'' of None \<Rightarrow> JString [] | Some v \<Rightarrow> v)\<rparr>"
  proof (intro allI impI)
    fix k d'
    assume mem: "(k, JObject d') \<in> set (item # items)"
    show "map_of ((key, p) # new) k =
         Some \<lparr>prop_type = param_type (map_of d' ''type''),
               prop_description =
                 (case map_of d' ''description'' of None \<Rightarrow> JString [] | Some v \<Rightarrow> v)\<rparr>"
    proof (cases "k = key")
      case True
      with mem notin item d have "d' = d"
        by (auto simp add: image_iff)
      with True show ?thesis by (simp add: p_def)
    next
      case False
      with mem item have "(k, JObject d') \<in> set items" by auto
      with new(3) False show ?thesis by simp
    qed
  qed
  ultimately show ?case by blast
qed

lemma schema_parts_without_properties:
  assumes "schema = None \<or> (\<exists>sch. schema = Some sch \<and> map_of sch ''properties'' = None)"
  shows "schema_parts schema = Inr ([], JArray [])"
  using assms by (auto simp add: schema_parts_def)

lemma schema_parts_objects:
  assumes "map_of sch ''properties'' = Some (JObject items)"
    and "distinct (map fst items)"
    and "list_all is_dict (map snd items)"
  shows "\<exists>props. schema_parts (Some sch) =
             Inr (props, case map_of sch ''required'' of None \<Rightarrow> JArray [] | Some r \<Rightarrow> r) \<and>
           map fst props = map fst items \<and>
           (\<forall>key d. (key, JObject d) \<in> set items \<longrightarrow>
              map_of props key =
                Some \<lparr>prop_type = param_type (map_of d ''type''),
                      prop_description =
                        (case map_of d ''description'' of None \<Rightarrow> JString [] | Some v \<Rightarrow> v)\<rparr>)"
proof -
  obtain new where new:
    "translate_properties items [] = Inr ([] @ new)"
    "map fst new = map fst items"
    "\<forall>key d. (key, JObject d) \<in> set items \<longrightarrow>
       map_of new key =
         Some \<lparr>prop_type = param_type (map_of d ''type''),
               prop_description =
                 (case map_of d ''description'' of None \<Rightarrow> JString [] | Some v \<Rightarrow> v)\<rparr>"
    using translate_properties_objects [OF assms(2,3), of "[]"] by auto
  have "sch \<noteq> []"
    using assms(1) by auto
  then have "schema_parts (Some sch) =
      Inr (new, case map_of sch ''required'' of None \<Rightarrow> JArray [] | Some r \<Rightarrow> r)"
    using new(1) by (simp add: schema_parts_def assms(1))
  with new(2,3) show ?thesis by blast
qed

text \<open>
  C1, as amended. The type of a parameter follows the fixed lookup, and every other
  declared type, a missing one included, gives \<open>STRING\<close>. For a descriptor whose schema
  is absent, empty or without the key \<open>properties\<close> the declaration has no parameters
  and an empty required list, whatever else the schema holds. For a descriptor whose
  \<open>properties\<close> is a dictionary of dictionaries the translator returns a declaration
  with the parameters of the schema in their order, each with its type mapped and its
  description or the empty string, and with the required list of the schema, or the
  empty list when the schema has none.
\<close>

theorem translator_defaults:
  "param_type (Some (JString ''number'')) = ''NUMBER'' \<and>
   param_type (Some (JString ''integer'')) = ''INTEGER'' \<and>
   param_type (Some (JString ''boolean'')) = ''BOOLEAN'' \<and>
   param_type (Some (JString ''string'')) = ''STRING'' \<and>
   param_type (Some (JString ''array'')) = ''ARRAY'' \<and>
   param_type (Some (JString ''object'')) = ''OBJECT'' \<and>
   (ty \<notin> Some ` JString ` {''number'', ''integer'', ''boolean'', ''array'', ''object''} \<longrightarrow>
      param_type ty = ''STRING'') \<and>
   (inputSchema t = None \<or> (\<exists>sch. inputSchema t = Some sch \<and> map_of sch ''properties'' = None) \<longrightarrow>
      mcp_tool_to_gemini_function t =
        Inr \<lparr>fd_name = name t,
             fd_description = (case description t of None \<Rightarrow> [] | Some d \<Rightarrow> d),
             fd_parameters = \<lparr>params_type = ''OBJECT'', properties = [], required = JArray []\<rparr>\<rparr>) \<and>
   (inputSchema t = Some sch \<and> map_of sch ''properties'' = Some (JObject items) \<and>
    distinct (map fst items) \<and> list_all is_dict (map snd items) \<longrightarrow>
      (\<exists>decl. mcp_tool_to_gemini_function t = Inr decl \<and>
         fd_name decl = name t \<and>
         fd_description decl = (case description t of None \<Rightarrow> [] | Some d \<Rightarrow> d) \<and>
         params_type (fd_parameters decl) = ''OBJECT'' \<and>
         required (fd_parameters decl) =
           (case map_of sch ''required'' of None \<Rightarrow> JArray [] | Some r \<Rightarrow> r) \<and>
         map fst (properties (fd_parameters decl)) = map fst items \<and>
         (\<forall>key d. (key, JObject d) \<in> set items \<longrightarrow>
            map_of (properties (fd_parameters decl)) key =
              Some \<lparr>prop_type = param_type (map_of d ''type''),
                    prop_description =
                      (case map_of d ''description'' of None \<Rightarrow> JString [] | Some v \<Rightarrow> v)\<rparr>)))"
proof -
  have lookup:
    "param_type (Some (JString ''number'')) = ''NUMBER''"
    "param_type (Some (JString ''integer'')) = ''INTEGER''"
    "param_type (Some (JString ''boolean'')) = ''BOOLEAN''"
    "param_type (Some (JString ''string'')) = ''STRING''"
    "param_type (Some (JString ''array'')) = ''ARRAY''"
    "param_type (Some (JString ''object'')) = ''OBJECT''"
    by (simp_all add: param_type_def)
  have other: "ty \<notin> Some ` JString ` {''number'', ''integer'', ''boolean'', ''array'', ''object''} \<longrightarrow>
      param_type ty = ''STRING''"
    by (simp add: param_type_def image_iff)
  have none: "inputSchema t = None \<or> (\<exists>sch. inputSchema t = Some sch \<and> map_of sch ''properties'' = None) \<longrightarrow>
      mcp_tool_to_gemini_function t =
        Inr \<lparr>fd_name = name t,
             fd_description = (case description t of None \<Rightarrow> [] | Some d \<Rightarrow> d),
             fd_parameters = \<lparr>params_type = ''OBJECT'', properties = [], required = JArray []\<rparr>\<rparr>"
  proof
    assume "inputSchema t = None \<or> (\<exists>sch. inputSchema t = Some sch \<and> map_of sch ''properties'' = None)"
    then have "schema_parts (inputSchema t) = Inr ([], JArray [])"
      by (rule schema_parts_without_properties)
    then show "mcp_tool_to_gemini_function t =
        Inr \<lparr>fd_name = name t,
             fd_description = (case description t of None \<Rightarrow> [] | Some d \<Rightarrow> d),
             fd_parameters = \<lparr>params_type = ''OBJECT'', properties = [], required = JArray []\<rparr>\<rparr>"
      by (simp add: mcp_tool_to_gemini_function_def)
  qed
  have objects: "inputSchema t = Some sch \<and> map_of sch ''properties'' = Some (JObject items) \<and>
    distinct (map fst items) \<and> list_all is_dict (map snd items) \<longrightarrow>
      (\<exists>decl. mcp_tool_to_gemini_function t = Inr decl \<and>
         fd_name decl = name t \<and>
         fd_description decl = (case description t of None \<Rightarrow> [] | Some d \<Rightarrow> d) \<and>
         params_type (fd_parameters decl) = ''OBJECT'' \<and>
         required (fd_parameters decl) =
           (case map_of sch ''required'' of None \<Rightarrow> JArray [] | Some r \<Rightarrow> r) \<and>
         map fst (properties (fd_parameters decl)) = map fst items \<and>
         (\<forall>key d. (key, JObject d) \<in> set items \<longrightarrow>
            map_of (properties (fd_parameters decl)) key =
              Some \<lparr>prop_type = param_type (map_of d ''type''),
                    prop_description =
                      (case map_of d ''description'' of None \<Rightarrow> JString [] | Some v \<Rightarrow> v)\<rparr>))"
  proof
    assume h: "inputSchema t = Some sch \<and> map_of sch ''properties'' = Some (JObject items) \<and>
      distinct (map fst items) \<and> list_all is_dict (map snd items)"
    then obtain props where props:
      "schema_parts (Some sch) =
         Inr (props, case map_of sch ''required'' of None \<Rightarrow> JArray [] | Some r \<Rightarrow> r)"
      "map fst props = map fst items"
      "\<forall>key d. (key, JObject d) \<in> set items \<longrightarrow>
         map_of props key =
           Some \<lparr>prop_type = param_type (map_of d ''type''),
                 prop_description =
                   (case map_of d ''description'' of None \<Rightarrow> JString [] | Some v \<Rightarrow> v)\<rparr>"
      using schema_parts_objects [of sch items] by blast
    from h have "mcp_tool_to_gemini_function t =
        Inr \<lparr>fd_name = name t,
             fd_description = (case description t of None \<Rightarrow> [] | Some d \<Rightarrow> d),
             fd_parameters =
               \<lparr>params_type = ''OBJECT'', properties = props,
                required = (case map_of sch ''required'' of None \<Rightarrow> JArray [] | Some r \<Rightarrow> r)\<rparr>\<rparr>"
      by (simp add: mcp_tool_to_gemini_function_def props(1))
    with props(2,3) show "\<exists>decl. mcp_tool_to_gemini_function t = Inr decl \<and>
         fd_name decl = name t \<and>
         fd_description decl = (case description t of None \<Rightarrow> [] | Some d \<Rightarrow> d) \<and>
         params_type (fd_parameters decl) = ''OBJECT'' \<and>
         required (fd_parameters decl) =
           (case map_of sch ''required'' of None \<Rightarrow> JArray [] | Some r \<Rightarrow> r) \<and>
         map fst (properties (fd_parameters decl)) = map fst items \<and>
         (\<forall>key d. (key, JObject d) \<in> set items \<longrightarrow>
            map_of (properties (fd_parameters decl)) key =
              Some \<lparr>prop_type = param_type (map_of d ''type''),
                    prop_description =
                      (case map_of d ''description'' of None \<Rightarrow> JString [] | Some v \<Rightarrow> v)\<rparr>)"
      by simp
  qed
  from lookup other none objects show ?thesis by blast
qed

text \<open>
  The declaration of \<open>count_sentences\<close>: one parameter \<open>text\<close> of type \<open>STRING\<close>
  with the empty description, and the required list of the schema.
\<close>

theorem translator_defaults_witness:
  "param_type (Some (JString ''float'')) = ''STRING'' \<and>
   param_type None = ''STRING'' \<and>
   mcp_tool_to_gemini_function \<lparr>name = ''ping'', description = None, inputSchema = None\<rparr> =
     Inr \<lparr>fd_name = ''ping'', fd_description = [],
          fd_parameters = \<lparr>params_type = ''OBJECT'', properties = [], required = JArray []\<rparr>\<rparr> \<and>
   inputSchema count_sentences_tool \<noteq> None \<and>
   (\<exists>decl. mcp_tool_to_gemini_function count_sentences_tool = Inr decl \<and>
      fd_name decl = ''count_sentences'' \<and>
      required (fd_parameters decl) = JArray [JString ''text''] \<and>
      map fst (properties (fd_parameters decl)) = [''text''] \<and>
      map_of (properties (fd_parameters decl)) ''text'' =
        Some \<lparr>prop_type = ''STRING'', prop_description = JString []\<rparr>)"
proof -
  define d where "d = [(''title'', JString ''Text''), (''type'', JString ''string'')]"
  define items where "items = [(''text'', JObject d)]"
  define sch where "sch = the (inputSchema count_sentences_tool)"
  have sch: "inputSchema count_sentences_tool = Some sch"
    by (simp add: sch_def count_sentences_tool_def)
  have props: "map_of sch ''properties'' = Some (JObject items)"
    by (simp add: sch_def items_def d_def count_sentences_tool_def)
  have req: "map_of sch ''required'' = Some (JArray [JString ''text''])"
    by (simp add: sch_def count_sentences_tool_def)
  have shape: "distinct (map fst items) \<and> list_all is_dict (map snd items)"
    by (simp add: items_def)
  have mem: "(''text'', JObject d) \<in> set items"
    by (simp add: items_def)
  have ty: "param_type (map_of d ''type'') = ''STRING''"
    by (simp add: d_def param_type_def)
  have descr: "map_of d ''description'' = None"
    by (simp add: d_def)
  have h: "inputSchema count_sentences_tool = Some sch \<and>
      map_of sch ''properties'' = Some (JObject items) \<and>
      distinct (map fst items) \<and> list_all is_dict (map snd items)"
    by (rule conjI [OF sch conjI [OF props shape]])
  note all = translator_defaults [of None count_sentences_tool sch items]
  note last = all [THEN conjunct2, THEN conjunct2, THEN conjunct2, THEN conjunct2,
    THEN conjunct2, THEN conjunct2, THEN conjunct2, THEN conjunct2]
  from last [THEN mp, OF h] obtain decl where
      d1: "mcp_tool_to_gemini_function count_sentences_tool = Inr decl"
    and d2: "fd_name decl = name count_sentences_tool"
    and d3: "required (fd_parameters decl) =
       (case map_of sch ''required'' of None \<Rightarrow> JArray [] | Some r \<Rightarrow> r)"
    and d4: "map fst (properties (fd_parameters decl)) = map fst items"
    and d5: "\<forall>key d. (key, JObject d) \<in> set items \<longrightarrow>
       map_of (properties (fd_parameters decl)) key =
         Some \<lparr>prop_type = param_type (map_of d ''type''),
               prop_description =
                 (case map_of d ''description'' of None \<Rightarrow> JString [] | Some v \<Rightarrow> v)\<rparr>"
    by (elim exE conjE)
  have "map_of (properties (fd_parameters decl)) ''text'' =
      Some \<lparr>prop_type = param_type (map_of d ''type''),
            prop_description =
              (case map_of d ''description'' of None \<Rightarrow> JString [] | Some v \<Rightarrow> v)\<rparr>"
    using d5 [rule_format, OF mem] .
  then have p: "map_of (properties (fd_parameters decl)) ''text'' =
      Some \<lparr>prop_type = ''STRING'', prop_description = JString []\<rparr>"
    by (simp only: ty descr option.case)
  have n: "fd_name decl = ''count_sentences''"
    by (simp add: d2 count_sentences_tool_def)
  have r: "required (fd_parameters decl) = JArray [JString ''text'']"
    by (simp only: d3 req option.case)
  have k: "map fst (properties (fd_parameters decl)) = [''text'']"
    by (simp add: d4 items_def)
  have s: "inputSchema count_sentences_tool \<noteq> None"
    by (simp only: sch option.distinct not_False_eq_True)
  from d1 n r k p have "mcp_tool_to_gemini_function count_sentences_tool = Inr decl \<and>
      fd_name decl = ''count_sentences'' \<and>
      required (fd_parameters decl) = JArray [JString ''text''] \<and>
      map fst (properties (fd_parameters decl)) = [''text''] \<and>
      map_of (properties (fd_parameters decl)) ''text'' =
        Some \<lparr>prop_type = ''STRING'', prop_description = JString []\<rparr>"
    by (intro conjI)
  then have "\<exists>decl. mcp_tool_to_gemini_function count_sentences_tool = Inr decl \<and>
      fd_name decl = ''count_sentences'' \<and>
      required (fd_parameters decl) = JArray [JString ''text''] \<and>
      map fst (properties (fd_parameters decl)) = [''text''] \<and>
      map_of (properties (fd_parameters decl)) ''text'' =
        Some \<lparr>prop_type = ''STRING'', prop_description = JString []\<rparr>"
    by (rule exI [where x = decl])
  with s have declared: "inputSchema count_sentences_tool \<noteq> None \<and>
      (\<exists>decl. mcp_tool_to_gemini_function count_sentences_tool = Inr decl \<and>
      fd_name decl = ''count_sentences'' \<and>
      required (fd_parameters decl) = JArray [JString ''text''] \<and>
      map fst (properties (fd_parameters decl)) = [''text''] \<and>
      map_of (properties (fd_parameters decl)) ''text'' =
        Some \<lparr>prop_type = ''STRING'', prop_description = JString []\<rparr>)"
    by (rule conjI)
  have f: "Some (JString ''float'')
      \<notin> Some ` JString ` {''number'', ''integer'', ''boolean'', ''array'', ''object''}"
    by (simp add: image_iff)
  have float: "param_type (Some (JString ''float'')) = ''STRING''"
    using translator_defaults [where ty = "Some (JString ''float'')",
        THEN conjunct2, THEN conjunct2, THEN conjunct2, THEN conjunct2,
        THEN conjunct2, THEN conjunct2, THEN conjunct1, THEN mp, OF f] .
  have m: "None \<notin> Some ` JString ` {''number'', ''integer'', ''boolean'', ''array'', ''object''}"
    by (simp add: image_iff)
  have missing: "param_type None = ''STRING''"
    using translator_defaults [where ty = None,
        THEN conjunct2, THEN conjunct2, THEN conjunct2, THEN conjunct2,
        THEN conjunct2, THEN conjunct2, THEN conjunct1, THEN mp, OF m] .
  let ?ping = "\<lparr>name = ''ping'', description = None, inputSchema = None\<rparr>"
  have g: "inputSchema ?ping = None \<or>
      (\<exists>sch. inputSchema ?ping = Some sch \<and> map_of sch ''properties'' = None)"
    by simp
  have ping: "mcp_tool_to_gemini_function ?ping =
     Inr \<lparr>fd_name = ''ping'', fd_description = [],
          fd_parameters = \<lparr>params_type = ''OBJECT'', properties = [], required = JArray []\<rparr>\<rparr>"
    using translator_defaults [where t = ?ping,
        THEN conjunct2, THEN conjunct2, THEN conjunct2, THEN conjunct2,
        THEN conjunct2, THEN conjunct2, THEN conjunct2, THEN conjunct1, THEN mp, OF g]
    by simp
  show ?thesis
    by (rule conjI [OF float conjI [OF missing conjI [OF ping declared]]])
qed

text \<open>
  Against C1 as it is written: a schema that has a required list and no key
  \<open>properties\<close> loses the list, and a parameter whose schema is not a dictionary (the
  schema \<open>true\<close> of JSON Schema) makes the translator raise.
\<close>

theorem translator_counterexample:
  "map_of [(''type'', JString ''object''), (''required'', JArray [JString ''text''])] ''required'' =
     Some (JArray [JString ''text'']) \<and>
   mcp_tool_to_gemini_function
     \<lparr>name = ''t'', description = None,
      inputSchema = Some [(''type'', JString ''object''), (''required'', JArray [JString ''text''])]\<rparr> =
     Inr \<lparr>fd_name = ''t'', fd_description = [],
          fd_parameters = \<lparr>params_type = ''OBJECT'', properties = [], required = JArray []\<rparr>\<rparr> \<and>
   mcp_tool_to_gemini_function
     \<lparr>name = ''t'', description = None,
      inputSchema = Some [(''properties'', JObject [(''x'', JBool True)])]\<rparr> =
     Inl (no_attribute (JBool True) ''get'')"
  by (simp add: mcp_tool_to_gemini_function_def schema_parts_def prop_of_schema_def)

subsection \<open>The payload of the function response\<close>










text \<open>What the body of the inner \<open>try\<close> does, case by case.\<close>

lemma relay_call_raises:
  assumes "call_tool env (world st) n a = (Inl e, w1)"
  shows "call_and_relay env st n a = (st\<lparr>world := w1\<rparr>, [CallTool n a], Some e)"
  using assms by (simp add: call_and_relay_def)

lemma relay_payload_raises:
  assumes "call_tool env (world st) n a = (Inr r, w1)" and "result_content_str env r = Inl e"
  shows "call_and_relay env st n a = (st\<lparr>world := w1\<rparr>, [CallTool n a], Some e)"
  using assms by (simp add: call_and_relay_def)

lemma relay_model_raises:
  assumes "call_tool env (world st) n a = (Inr r, w1)" and "result_content_str env r = Inr s"
    and "send_message_async env w1 (FunctionResponse n s) (tools_arg (gemini_tools_list st)) =
         (Inl e, w2)"
  shows "call_and_relay env st n a =
     (st\<lparr>world := w2\<rparr>,
      [CallTool n a, Print (tool_result (isError r) s), Print sending_result,
       SendMessage (FunctionResponse n s) (tools_arg (gemini_tools_list st))],
      Some e)"
  using assms by (simp add: call_and_relay_def Let_def)

lemma relay_model_answers:
  assumes "call_tool env (world st) n a = (Inr r, w1)" and "result_content_str env r = Inr s"
    and "send_message_async env w1 (FunctionResponse n s) (tools_arg (gemini_tools_list st)) =
         (Inr resp, w2)"
  shows "call_and_relay env st n a =
     (st\<lparr>world := w2, response := Some resp\<rparr>,
      [CallTool n a, Print (tool_result (isError r) s), Print sending_result,
       SendMessage (FunctionResponse n s) (tools_arg (gemini_tools_list st)),
       final_report resp],
      None)"
  using assms by (simp add: call_and_relay_def Let_def)







subsection \<open>The dispatch of a tool call\<close>

text \<open>The three ways through the body of the inner \<open>try\<close>.\<close>

lemma relay_cases:
  obtains
    (raises_before) e w1 where
      "call_and_relay env st n a = (st\<lparr>world := w1\<rparr>, [CallTool n a], Some e)"
  | (model_raises) r :: call_tool_result and s e w2 where
      "call_and_relay env st n a =
         (st\<lparr>world := w2\<rparr>,
          [CallTool n a, Print (tool_result (isError r) s), Print sending_result,
           SendMessage (FunctionResponse n s) (tools_arg (gemini_tools_list st))],
          Some e)"
  | (model_answers) r :: call_tool_result and s resp w2 where
      "call_and_relay env st n a =
         (st\<lparr>world := w2, response := Some resp\<rparr>,
          [CallTool n a, Print (tool_result (isError r) s), Print sending_result,
           SendMessage (FunctionResponse n s) (tools_arg (gemini_tools_list st)),
           final_report resp],
          None)"
proof (cases "call_tool env (world st) n a")
  case (Pair res w1)
  show ?thesis
  proof (cases res)
    case (Inl e)
    with Pair have "call_and_relay env st n a = (st\<lparr>world := w1\<rparr>, [CallTool n a], Some e)"
      by (simp add: relay_call_raises)
    then show ?thesis by (rule raises_before)
  next
    case r: (Inr r)
    show ?thesis
    proof (cases "result_content_str env r")
      case (Inl e)
      with Pair r have "call_and_relay env st n a = (st\<lparr>world := w1\<rparr>, [CallTool n a], Some e)"
        using relay_payload_raises [of env st n a r w1 e] by simp
      then show ?thesis by (rule raises_before)
    next
      case s: (Inr s)
      show ?thesis
      proof (cases "send_message_async env w1 (FunctionResponse n s) (tools_arg (gemini_tools_list st))")
        case m: (Pair res2 w2)
        show ?thesis
        proof (cases res2)
          case (Inl e)
          with Pair r s m have "call_and_relay env st n a =
             (st\<lparr>world := w2\<rparr>,
              [CallTool n a, Print (tool_result (isError r) s), Print sending_result,
               SendMessage (FunctionResponse n s) (tools_arg (gemini_tools_list st))],
              Some e)"
            using relay_model_raises [of env st n a r w1 s e w2] by simp
          then show ?thesis by (rule model_raises)
        next
          case (Inr resp)
          with Pair r s m have "call_and_relay env st n a =
             (st\<lparr>world := w2, response := Some resp\<rparr>,
              [CallTool n a, Print (tool_result (isError r) s), Print sending_result,
               SendMessage (FunctionResponse n s) (tools_arg (gemini_tools_list st)),
               final_report resp],
              None)"
            using relay_model_answers [of env st n a r w1 s resp w2] by simp
          then show ?thesis by (rule model_answers)
        qed
      qed
    qed
  qed
qed

lemma final_report_print:
  "final_report resp = Print no_final_response \<or>
   (\<exists>t. t \<noteq> [] \<and> final_report resp = Print (llm_response t))"
proof (cases "parts resp")
  case Nil
  then show ?thesis by (simp add: final_report_def)
next
  case (Cons p ps)
  show ?thesis
  proof (cases "part_text p = []")
    case True
    with Cons show ?thesis by (simp add: final_report_def)
  next
    case False
    with Cons have "final_report resp = Print (llm_response (part_text p))"
      by (simp add: final_report_def)
    with False show ?thesis by blast
  qed
qed

lemma final_report_no_call: "\<not> is_call_tool (final_report resp)"
  using final_report_print [of resp] by (elim disjE exE conjE) simp_all

lemma final_report_no_send: "final_report resp \<noteq> SendMessage m t"
  using final_report_print [of resp] by (elim disjE exE conjE) simp_all

lemma relay_keeps_tools:
  "gemini_tools_list (fst (call_and_relay env st n a)) = gemini_tools_list st"
  by (cases rule: relay_cases [of env st n a]) simp_all

lemma relay_keeps_session:
  "mcp_session (fst (call_and_relay env st n a)) = mcp_session st"
  by (cases rule: relay_cases [of env st n a]) simp_all

lemma relay_sent:
  assumes "SendMessage m t \<in> set (fst (snd (call_and_relay env st n a)))"
  shows "t = tools_arg (gemini_tools_list st)"
  using assms
  by (cases rule: relay_cases [of env st n a]) (auto simp add: final_report_no_send [symmetric])

lemma relay_dispatches: "tool_dispatches (fst (snd (call_and_relay env st n a))) = 1"
  by (cases rule: relay_cases [of env st n a])
     (simp_all add: tool_dispatches_def final_report_no_call)

text \<open>The handler of the inner \<open>try\<close>.\<close>

lemma dispatch_without_session:
  assumes "\<not> mcp_session st"
  shows "tool_dispatch env st n a = (st, [Print no_session, Print no_tools_apology])"
  using assms by (simp add: tool_dispatch_def)

lemma dispatch_returns:
  assumes "mcp_session st" and "call_and_relay env st n a = (st', ev, None)"
  shows "tool_dispatch env st n a = (st', Print (calling_tool n) # ev)"
  using assms by (simp add: tool_dispatch_def)

lemma dispatch_raises:
  assumes "mcp_session st" and "call_and_relay env st n a = (st', ev, Some e)"
  shows "tool_dispatch env st n a =
    (st', Print (calling_tool n) # ev @ [Print (tool_error n e), Print tool_apology])"
  using assms by (simp add: tool_dispatch_def)

lemma dispatch_cases:
  obtains
    (no_session) "tool_dispatch env st n a = (st, [Print no_session, Print no_tools_apology])"
  | (returns) "tool_dispatch env st n a =
        (fst (call_and_relay env st n a),
         Print (calling_tool n) # fst (snd (call_and_relay env st n a)))"
  | (raises) e where "tool_dispatch env st n a =
        (fst (call_and_relay env st n a),
         Print (calling_tool n) # fst (snd (call_and_relay env st n a)) @
         [Print (tool_error n e), Print tool_apology])"
proof (cases "mcp_session st")
  case False
  then show ?thesis by (intro no_session dispatch_without_session)
next
  case True
  obtain st' ev x where c: "call_and_relay env st n a = (st', ev, x)"
    by (cases "call_and_relay env st n a") blast
  show ?thesis
  proof (cases x)
    case None
    with True c have "tool_dispatch env st n a = (st', Print (calling_tool n) # ev)"
      by (simp add: dispatch_returns)
    with c show ?thesis by (intro returns) simp
  next
    case (Some e)
    with True c have "tool_dispatch env st n a =
        (st', Print (calling_tool n) # ev @ [Print (tool_error n e), Print tool_apology])"
      by (simp add: dispatch_raises)
    with c show ?thesis by (intro raises [of e]) simp
  qed
qed

lemma dispatch_keeps_tools:
  "gemini_tools_list (fst (tool_dispatch env st n a)) = gemini_tools_list st"
  by (cases rule: dispatch_cases [of env st n a]) (simp_all add: relay_keeps_tools)

lemma dispatch_keeps_session:
  "mcp_session (fst (tool_dispatch env st n a)) = mcp_session st"
  by (cases rule: dispatch_cases [of env st n a]) (simp_all add: relay_keeps_session)

lemma dispatch_sent:
  assumes "SendMessage m t \<in> set (snd (tool_dispatch env st n a))"
  shows "t = tools_arg (gemini_tools_list st)"
  using assms
  by (cases rule: dispatch_cases [of env st n a]) (auto dest: relay_sent)

lemma dispatch_dispatches: "tool_dispatches (snd (tool_dispatch env st n a)) \<le> 1"
proof (cases rule: dispatch_cases [of env st n a])
  case no_session
  then show ?thesis by (simp add: tool_dispatches_def)
next
  case returns
  have "tool_dispatches (Print (calling_tool n) # fst (snd (call_and_relay env st n a))) =
      tool_dispatches (fst (snd (call_and_relay env st n a)))"
    by (simp add: tool_dispatches_def)
  with returns show ?thesis by (simp add: relay_dispatches)
next
  case (raises e)
  have "tool_dispatches (Print (calling_tool n) # fst (snd (call_and_relay env st n a)) @
         [Print (tool_error n e), Print tool_apology]) =
      tool_dispatches (fst (snd (call_and_relay env st n a)))"
    by (simp add: tool_dispatches_def)
  with raises show ?thesis by (simp add: relay_dispatches)
qed


subsection \<open>One turn\<close>

text \<open>The ways through the body of the outer \<open>try\<close>.\<close>

lemma turn_body_model_raises:
  assumes "send_message_async env (world st) (UserText q) (tools_arg (gemini_tools_list st)) =
    (Inl e, w1)"
  shows "turn_body env st q =
    (st\<lparr>world := w1\<rparr>,
     [Print sending_query, SendMessage (UserText q) (tools_arg (gemini_tools_list st))],
     Some e)"
  using assms by (simp add: turn_body_def Let_def)

lemma turn_body_request:
  assumes "send_message_async env (world st) (UserText q) (tools_arg (gemini_tools_list st)) =
    (Inr resp, w1)"
    and "parts resp = p # ps" and "part_function_call p = Some fc"
  shows "turn_body env st q =
    (fst (tool_dispatch env (st\<lparr>world := w1, response := Some resp\<rparr>) (fc_name fc) (fc_args fc)),
     [Print sending_query, SendMessage (UserText q) (tools_arg (gemini_tools_list st)),
      Print (requested_call env fc)] @
     snd (tool_dispatch env (st\<lparr>world := w1, response := Some resp\<rparr>) (fc_name fc) (fc_args fc)),
     None)"
  using assms by (simp add: turn_body_def Let_def split_beta)

lemma turn_body_no_parts:
  assumes "send_message_async env (world st) (UserText q) (tools_arg (gemini_tools_list st)) =
    (Inr resp, w1)"
    and "parts resp = []"
  shows "turn_body env st q =
    (st\<lparr>world := w1, response := Some resp\<rparr>,
     [Print sending_query, SendMessage (UserText q) (tools_arg (gemini_tools_list st)),
      Print unexpected_response],
     None)"
  using assms by (simp add: turn_body_def Let_def)

lemma turn_body_text:
  assumes "send_message_async env (world st) (UserText q) (tools_arg (gemini_tools_list st)) =
    (Inr resp, w1)"
    and "parts resp = p # ps" and "part_function_call p = None"
  shows "turn_body env st q =
    (st\<lparr>world := w1, response := Some resp\<rparr>,
     [Print sending_query, SendMessage (UserText q) (tools_arg (gemini_tools_list st)),
      Print (if part_text p \<noteq> [] then llm_response (part_text p) else unexpected_response)],
     None)"
  using assms by (simp add: turn_body_def Let_def)

lemma turn_body_cases:
  obtains
    (model_raises) e w1 where
      "turn_body env st q =
        (st\<lparr>world := w1\<rparr>,
         [Print sending_query, SendMessage (UserText q) (tools_arg (gemini_tools_list st))],
         Some e)"
  | (request) resp w1 fc where
      "turn_body env st q =
        (fst (tool_dispatch env (st\<lparr>world := w1, response := Some resp\<rparr>) (fc_name fc) (fc_args fc)),
         [Print sending_query, SendMessage (UserText q) (tools_arg (gemini_tools_list st)),
          Print (requested_call env fc)] @
         snd (tool_dispatch env (st\<lparr>world := w1, response := Some resp\<rparr>) (fc_name fc) (fc_args fc)),
         None)"
  | (plain) resp w1 s where
      "turn_body env st q =
        (st\<lparr>world := w1, response := Some resp\<rparr>,
         [Print sending_query, SendMessage (UserText q) (tools_arg (gemini_tools_list st)),
          Print s],
         None)"
proof (cases "send_message_async env (world st) (UserText q) (tools_arg (gemini_tools_list st))")
  case send: (Pair res w1)
  show ?thesis
  proof (cases res)
    case (Inl e)
    with send show ?thesis
      using turn_body_model_raises [of env st q e w1] by (intro model_raises) simp
  next
    case (Inr resp)
    show ?thesis
    proof (cases "parts resp")
      case Nil
      with send Inr show ?thesis
        using turn_body_no_parts [of env st q resp w1] by (intro plain) simp
    next
      case (Cons p ps)
      show ?thesis
      proof (cases "part_function_call p")
        case None
        with send Inr Cons show ?thesis
          using turn_body_text [of env st q resp w1 p ps] by (intro plain) simp
      next
        case (Some fc)
        with send Inr Cons show ?thesis
          using turn_body_request [of env st q resp w1 p ps fc] by (intro request) simp
      qed
    qed
  qed
qed

lemma turn_body_keeps_tools:
  "gemini_tools_list (fst (turn_body env st q)) = gemini_tools_list st"
  by (cases rule: turn_body_cases [of env st q]) (simp_all add: dispatch_keeps_tools)

lemma turn_body_keeps_session:
  "mcp_session (fst (turn_body env st q)) = mcp_session st"
  by (cases rule: turn_body_cases [of env st q]) (simp_all add: dispatch_keeps_session)

lemma turn_body_sent:
  assumes "SendMessage m t \<in> set (fst (snd (turn_body env st q)))"
  shows "t = tools_arg (gemini_tools_list st)"
proof (cases rule: turn_body_cases [of env st q])
  case (model_raises e w1)
  with assms show ?thesis by auto
next
  case (request resp w1 fc)
  with assms have "t = tools_arg (gemini_tools_list st) \<or>
      SendMessage m t \<in> set (snd (tool_dispatch env (st\<lparr>world := w1, response := Some resp\<rparr>)
        (fc_name fc) (fc_args fc)))"
    by auto
  then show ?thesis
  proof
    assume "SendMessage m t \<in> set (snd (tool_dispatch env (st\<lparr>world := w1, response := Some resp\<rparr>)
        (fc_name fc) (fc_args fc)))"
    then have "t = tools_arg (gemini_tools_list (st\<lparr>world := w1, response := Some resp\<rparr>))"
      by (rule dispatch_sent)
    then show ?thesis by simp
  qed
next
  case (plain resp w1 s)
  with assms show ?thesis by auto
qed

lemma tool_dispatches_append:
  "tool_dispatches (xs @ ys) = tool_dispatches xs + tool_dispatches ys"
  by (simp add: tool_dispatches_def)

lemma tool_dispatches_Cons:
  "tool_dispatches (x # xs) = (if is_call_tool x then 1 else 0) + tool_dispatches xs"
  by (simp add: tool_dispatches_def)

lemma tool_dispatches_prints: "tool_dispatches (map Print fb) = 0"
  by (induction fb) (simp_all add: tool_dispatches_def)

lemma turn_body_dispatches: "tool_dispatches (fst (snd (turn_body env st q))) \<le> 1"
proof (cases rule: turn_body_cases [of env st q])
  case (model_raises e w1)
  then show ?thesis by (simp add: tool_dispatches_def)
next
  case (request resp w1 fc)
  then show ?thesis
    using dispatch_dispatches [of env "st\<lparr>world := w1, response := Some resp\<rparr>" "fc_name fc" "fc_args fc"]
    by (simp add: tool_dispatches_Cons)
next
  case (plain resp w1 s)
  then show ?thesis by (simp add: tool_dispatches_def)
qed

text \<open>The handler of the outer \<open>try\<close> prints, and lets nothing out.\<close>

lemma turn_handler_prints:
  "\<exists>fb. turn_handler st e = (Print (chat_error e) # map Print fb @ [Print model_apology], None)"
proof (cases "response st")
  case None
  then have "turn_handler st e =
      (Print (chat_error e) # map Print [feedback_error unbound_response] @ [Print model_apology],
       None)"
    by (simp add: turn_handler_def read_feedback_def unbound_response_def)
  then show ?thesis by (rule exI)
next
  case (Some resp)
  show ?thesis
  proof (cases "prompt_feedback resp")
    case None
    with Some have "turn_handler st e =
        (Print (chat_error e) # map Print [] @ [Print model_apology], None)"
      by (simp add: turn_handler_def read_feedback_def)
    then show ?thesis by (rule exI)
  next
    case fb: (Some fb)
    with Some have "turn_handler st e =
        (Print (chat_error e) # map Print [''Gemini Prompt Feedback: '' @ fb] @
         [Print model_apology], None)"
      by (simp add: turn_handler_def read_feedback_def)
    then show ?thesis by (rule exI)
  qed
qed

lemma turn_cases:
  obtains
    (returns) "snd (snd (turn_body env st q)) = None" "turn env st q = turn_body env st q"
  | (caught) e fb where "snd (snd (turn_body env st q)) = Some e"
      "turn env st q =
        (fst (turn_body env st q),
         fst (snd (turn_body env st q)) @
         Print (chat_error e) # map Print fb @ [Print model_apology],
         None)"
proof -
  obtain st' ev x where b: "turn_body env st q = (st', ev, x)"
    by (cases "turn_body env st q") blast
  show ?thesis
  proof (cases x)
    case None
    with b have "turn env st q = turn_body env st q" by (simp add: turn_def)
    with b None show ?thesis by (intro returns) simp_all
  next
    case (Some e)
    obtain fb where h: "turn_handler st' e =
        (Print (chat_error e) # map Print fb @ [Print model_apology], None)"
      using turn_handler_prints [of st' e] by (elim exE)
    with b Some have "turn env st q =
        (st', ev @ Print (chat_error e) # map Print fb @ [Print model_apology], None)"
      by (simp add: turn_def)
    with b Some show ?thesis by (intro caught [of e fb]) simp_all
  qed
qed

lemma turn_returns: "snd (snd (turn env st q)) = None"
  by (cases rule: turn_cases [of env st q]) simp_all

lemma turn_state: "fst (turn env st q) = fst (turn_body env st q)"
  by (cases rule: turn_cases [of env st q]) simp_all

lemma turn_keeps_tools: "gemini_tools_list (fst (turn env st q)) = gemini_tools_list st"
  by (simp add: turn_state turn_body_keeps_tools)

lemma turn_keeps_session: "mcp_session (fst (turn env st q)) = mcp_session st"
  by (simp add: turn_state turn_body_keeps_session)

lemma turn_sent:
  assumes "SendMessage m t \<in> set (fst (snd (turn env st q)))"
  shows "t = tools_arg (gemini_tools_list st)"
proof (cases rule: turn_cases [of env st q])
  case returns
  with assms show ?thesis by (simp add: turn_body_sent)
next
  case (caught e fb)
  with assms have "SendMessage m t \<in> set (fst (snd (turn_body env st q)))"
    by auto
  then show ?thesis by (rule turn_body_sent)
qed

lemma turn_dispatches: "tool_dispatches (fst (snd (turn env st q))) \<le> 1"
proof (cases rule: turn_cases [of env st q])
  case returns
  then show ?thesis using turn_body_dispatches [of env st q] by simp
next
  case (caught e fb)
  have "tool_dispatches (Print (chat_error e) # map Print fb @ [Print model_apology]) =
      tool_dispatches (map Print (chat_error e # fb @ [model_apology]))"
    by simp
  then have "tool_dispatches (Print (chat_error e) # map Print fb @ [Print model_apology]) = 0"
    by (simp only: tool_dispatches_prints)
  with caught show ?thesis
    using turn_body_dispatches [of env st q]
    by (simp add: tool_dispatches_append del: map_append list.map)
qed

lemma turn_starts:
  "take 2 (fst (snd (turn env st q))) =
     [Print sending_query, SendMessage (UserText q) (tools_arg (gemini_tools_list st))]"
proof -
  have b: "take 2 (fst (snd (turn_body env st q))) =
     [Print sending_query, SendMessage (UserText q) (tools_arg (gemini_tools_list st))] \<and>
     2 \<le> length (fst (snd (turn_body env st q)))"
    by (cases rule: turn_body_cases [of env st q]) simp_all
  show ?thesis
  proof (cases rule: turn_cases [of env st q])
    case returns
    with b show ?thesis by simp
  next
    case (caught e fb)
    with b show ?thesis by simp
  qed
qed

text \<open>The scripted collaborators, call by call.\<close>

lemma scripted_send:
  "send_message_async scripted w m t =
     (case model_outcomes w of
        [] \<Rightarrow> (Inl script_exhausted, w)
      | r # rs \<Rightarrow> (r, w\<lparr>model_outcomes := rs\<rparr>))"
  by (simp add: scripted_def)

lemma scripted_call:
  "call_tool scripted w n a =
     (case tool_outcomes w of
        [] \<Rightarrow> (Inl script_exhausted, w)
      | r # rs \<Rightarrow> (r, w\<lparr>tool_outcomes := rs\<rparr>))"
  by (simp add: scripted_def)

lemma scripted_json: "json_loads scripted = scalar_loads" "json_dumps scripted s = s"
  by (simp_all add: scripted_def)

lemma scripted_startup:
  "stdio_client scripted w path = (None, w)" "initialize scripted w = (None, w)"
  "list_tools scripted w = (tools_outcome w, w)"
  by (simp_all add: scripted_def)

lemma session_start_fields:
  "world (session_start w gtl) = w" "mcp_session (session_start w gtl)"
  "gemini_tools_list (session_start w gtl) = gtl" "response (session_start w gtl) = None"
  by (simp_all add: session_start_def)

lemma tools_arg_count: "tools_arg count_declarations = Some count_declarations"
  by (simp add: tools_arg_def count_declarations_def)

lemma tools_arg_empty: "tools_arg [] = None"
  by (simp add: tools_arg_def)

subsection \<open>Failures of a tool call\<close>




subsection \<open>One dispatch in a turn\<close>

text \<open>
  C8: a turn calls a tool once at most. When the model has answered the function
  response, the broker prints the text of the answer, or the notice that there is none,
  and the body of the inner \<open>try\<close> ends there, whether that answer asks for a tool or
  not.
\<close>

theorem single_dispatch:
  "tool_dispatches (fst (snd (turn env st q))) \<le> 1 \<and>
   (call_tool env (world st) n a = (Inr r, w1) \<and> result_content_str env r = Inr s \<and>
    send_message_async env w1 (FunctionResponse n s) (tools_arg (gemini_tools_list st)) =
      (Inr resp, w2) \<longrightarrow>
      call_and_relay env st n a =
        (st\<lparr>world := w2, response := Some resp\<rparr>,
         [CallTool n a, Print (tool_result (isError r) s), Print sending_result,
          SendMessage (FunctionResponse n s) (tools_arg (gemini_tools_list st)),
          final_report resp],
         None) \<and>
      final_report resp =
        (if parts resp \<noteq> [] \<and> part_text (hd (parts resp)) \<noteq> []
         then Print (llm_response (part_text (hd (parts resp))))
         else Print no_final_response))"
proof (intro conjI impI)
  show "tool_dispatches (fst (snd (turn env st q))) \<le> 1"
    by (rule turn_dispatches)
next
  assume "call_tool env (world st) n a = (Inr r, w1) \<and> result_content_str env r = Inr s \<and>
    send_message_async env w1 (FunctionResponse n s) (tools_arg (gemini_tools_list st)) =
      (Inr resp, w2)"
  then show "call_and_relay env st n a =
        (st\<lparr>world := w2, response := Some resp\<rparr>,
         [CallTool n a, Print (tool_result (isError r) s), Print sending_result,
          SendMessage (FunctionResponse n s) (tools_arg (gemini_tools_list st)),
          final_report resp],
         None)"
    using relay_model_answers [of env st n a r w1 s resp w2] by simp
next
  show "final_report resp =
        (if parts resp \<noteq> [] \<and> part_text (hd (parts resp)) \<noteq> []
         then Print (llm_response (part_text (hd (parts resp))))
         else Print no_final_response)"
    by (cases "parts resp") (simp_all add: final_report_def)
qed

text \<open>
  In the scripted world the model asks for \<open>count_sentences\<close> again when it has the
  count: the turn calls the tool once and ends with the notice.
\<close>

theorem single_dispatch_witness:
  "fst (snd (turn scripted (session_start asks_twice count_declarations) ''How many?'')) =
     [Print sending_query,
      SendMessage (UserText ''How many?'') (Some count_declarations),
      Print (requested_call scripted \<lparr>fc_name = ''count_sentences'', fc_args = the_args\<rparr>),
      Print (calling_tool ''count_sentences''),
      CallTool ''count_sentences'' the_args,
      Print (tool_result False ''2''),
      Print sending_result,
      SendMessage (FunctionResponse ''count_sentences'' ''2'') (Some count_declarations),
      Print no_final_response] \<and>
   tool_dispatches
     (fst (snd (turn scripted (session_start asks_twice count_declarations) ''How many?''))) \<le> 1 \<and>
   part_function_call (hd (parts request_count)) \<noteq> None \<and>
   fst (snd (call_and_relay scripted
        ((session_start asks_twice count_declarations)
           \<lparr>world := asks_twice\<lparr>model_outcomes := [Inr request_count]\<rparr>,
            response := Some request_count\<rparr>)
        ''count_sentences'' the_args)) =
     [CallTool ''count_sentences'' the_args,
      Print (tool_result False ''2''),
      Print sending_result,
      SendMessage (FunctionResponse ''count_sentences'' ''2'') (Some count_declarations),
      Print no_final_response]"
proof -
  let ?begin_twice = "session_start asks_twice count_declarations"
  let ?asked_twice = "?begin_twice\<lparr>world := asks_twice\<lparr>model_outcomes := [Inr request_count]\<rparr>,
      response := Some request_count\<rparr>"
  let ?res = "\<lparr>content = [TextContent (Some ''2'')], isError = False\<rparr>"
  let ?wb = "asks_twice\<lparr>model_outcomes := [Inr request_count], tool_outcomes := []\<rparr>"
  let ?wc = "asks_twice\<lparr>model_outcomes := [], tool_outcomes := []\<rparr>"
  have run: "fst (snd (turn scripted ?begin_twice ''How many?'')) =
     [Print sending_query,
      SendMessage (UserText ''How many?'') (Some count_declarations),
      Print (requested_call scripted \<lparr>fc_name = ''count_sentences'', fc_args = the_args\<rparr>),
      Print (calling_tool ''count_sentences''),
      CallTool ''count_sentences'' the_args,
      Print (tool_result False ''2''),
      Print sending_result,
      SendMessage (FunctionResponse ''count_sentences'' ''2'') (Some count_declarations),
      Print no_final_response]"
    by (simp add: turn_def turn_body_def tool_dispatch_def call_and_relay_def Let_def
        scripted_send scripted_call scripted_json session_start_def asks_twice_def
        request_count_def result_content_str_def scalar_loads_def is_scalar_def is_digit_def
        final_report_def tools_arg_count)
  have h: "call_tool scripted (world ?asked_twice) ''count_sentences'' the_args = (Inr ?res, ?wb) \<and>
      result_content_str scripted ?res = Inr ''2'' \<and>
      send_message_async scripted ?wb (FunctionResponse ''count_sentences'' ''2'')
        (tools_arg (gemini_tools_list ?asked_twice)) = (Inr request_count, ?wc)"
    by (simp add: scripted_call scripted_send scripted_json session_start_def asks_twice_def
        result_content_str_def scalar_loads_def is_scalar_def is_digit_def)
  note t = single_dispatch [where env = scripted]
  have count: "tool_dispatches (fst (snd (turn scripted ?begin_twice ''How many?''))) \<le> 1"
    using t [where st = ?begin_twice and q = "''How many?''", THEN conjunct1] .
  note second = t [where st = ?asked_twice and n = "''count_sentences''" and a = the_args and r = ?res
      and s = "''2''" and ?w1.0 = ?wb and resp = request_count and ?w2.0 = ?wc,
      THEN conjunct2, THEN mp, OF h]
  have report: "final_report request_count = Print no_final_response"
    using second [THEN conjunct2] by (simp add: request_count_def)
  have relay: "fst (snd (call_and_relay scripted ?asked_twice ''count_sentences'' the_args)) =
     [CallTool ''count_sentences'' the_args,
      Print (tool_result False ''2''),
      Print sending_result,
      SendMessage (FunctionResponse ''count_sentences'' ''2'') (Some count_declarations),
      Print no_final_response]"
    using second [THEN conjunct1] by (simp add: session_start_fields tools_arg_count report)
  have asks: "part_function_call (hd (parts request_count)) \<noteq> None"
    by (simp add: request_count_def)
  from run count asks relay show ?thesis by (intro conjI)
qed

subsection \<open>The chat loop\<close>

declare chat_loop.simps [simp del]

lemma loop_quit:
  assumes "is_quit q"
  shows "chat_loop env st (q # rest) = (st, [Input q], None)"
  using assms by (simp add: chat_loop.simps)

lemma loop_blank:
  assumes "\<not> is_quit q" and "q = []"
  shows "chat_loop env st (q # rest) =
    (fst (chat_loop env st rest), Input q # fst (snd (chat_loop env st rest)),
     snd (snd (chat_loop env st rest)))"
  using assms by (simp add: chat_loop.simps split_beta)

lemma loop_turn:
  assumes "\<not> is_quit q" and "q \<noteq> []"
  shows "chat_loop env st (q # rest) =
    (fst (chat_loop env (fst (turn env st q)) rest),
     Input q # fst (snd (turn env st q)) @ fst (snd (chat_loop env (fst (turn env st q)) rest)),
     snd (snd (chat_loop env (fst (turn env st q)) rest)))"
proof -
  obtain st1 ev1 x where t: "turn env st q = (st1, ev1, x)"
    by (cases "turn env st q") blast
  with turn_returns [of env st q] have "x = None" by simp
  with t assms show ?thesis by (simp add: chat_loop.simps split_beta)
qed

lemma loop_ends:
  "snd (snd (chat_loop env st inputs)) = (if list_ex is_quit inputs then None else Some end_of_input)"
proof (induction inputs arbitrary: st)
  case Nil
  show ?case by (simp add: chat_loop.simps)
next
  case (Cons q rest)
  show ?case
  proof (cases "is_quit q")
    case True
    then show ?thesis by (simp add: loop_quit)
  next
    case False
    show ?thesis
    proof (cases "q = []")
      case True
      with False Cons [of st] show ?thesis by (simp add: loop_blank)
    next
      case nonempty: False
      with False Cons [of "fst (turn env st q)"] show ?thesis by (simp add: loop_turn)
    qed
  qed
qed

lemma loop_sent:
  assumes "SendMessage m t \<in> set (fst (snd (chat_loop env st inputs)))"
  shows "t = tools_arg (gemini_tools_list st)"
  using assms
proof (induction inputs arbitrary: st)
  case Nil
  then show ?case by (simp add: chat_loop.simps)
next
  case (Cons q rest)
  show ?case
  proof (cases "is_quit q")
    case True
    with Cons.prems show ?thesis by (simp add: loop_quit)
  next
    case False
    show ?thesis
    proof (cases "q = []")
      case True
      with False Cons.prems have "SendMessage m t \<in> set (fst (snd (chat_loop env st rest)))"
        by (simp add: loop_blank)
      then show ?thesis by (rule Cons.IH)
    next
      case nonempty: False
      with False Cons.prems have "SendMessage m t \<in> set (fst (snd (turn env st q))) \<or>
          SendMessage m t \<in> set (fst (snd (chat_loop env (fst (turn env st q)) rest)))"
        by (simp add: loop_turn)
      then show ?thesis
      proof
        assume "SendMessage m t \<in> set (fst (snd (turn env st q)))"
        then show ?thesis by (rule turn_sent)
      next
        assume "SendMessage m t \<in> set (fst (snd (chat_loop env (fst (turn env st q)) rest)))"
        then have "t = tools_arg (gemini_tools_list (fst (turn env st q)))"
          by (rule Cons.IH)
        then show ?thesis by (simp add: turn_keeps_tools)
      qed
    qed
  qed
qed

lemma loop_first_call:
  assumes "\<not> is_quit q" and "q \<noteq> []"
  shows "take 3 (fst (snd (chat_loop env st (q # rest)))) =
    [Input q, Print sending_query, SendMessage (UserText q) (tools_arg (gemini_tools_list st))]"
proof -
  have "take 3 (Input q # fst (snd (turn env st q)) @
      fst (snd (chat_loop env (fst (turn env st q)) rest))) =
      Input q # take 2 (fst (snd (turn env st q)) @
        fst (snd (chat_loop env (fst (turn env st q)) rest)))"
    by (simp add: numeral_3_eq_3 numeral_2_eq_2)
  moreover have "2 \<le> length (fst (snd (turn env st q)))"
    using turn_starts [of env st q, THEN arg_cong, of length] by simp
  ultimately show ?thesis
    using assms by (simp add: loop_turn turn_starts)
qed

text \<open>The lines of the runs below.\<close>

lemma quit_is_quit: "is_quit ''quit''"
  by (simp add: is_quit_def lower_char_def)

lemma not_quit: "\<not> is_quit ''Hello''" "\<not> is_quit ''Hi''"
  by (simp_all add: is_quit_def)

subsection \<open>The session\<close>

lemma discover_raises:
  assumes "list_tools env w = (Inl e, w1)"
  shows "discover_tools env w = ([], [Print discovering, Print (listing_error e)], w1)"
  using assms by (simp add: discover_tools_def)

lemma discover_nothing:
  assumes "list_tools env w = (Inr [], w1)"
  shows "discover_tools env w = ([], [Print discovering, Print no_tools_discovered], w1)"
  using assms by (simp add: discover_tools_def)

lemma make_tools_list_empty: "make_tools_list [] = ([], [Print no_tools_converted])"
  by (simp add: make_tools_list_def)

lemma session_after_startup:
  assumes "stdio_client env w path = (None, w1)" and "initialize env w1 = (None, w2)"
    and "discover_tools env w2 = (tools, ev2, w3)" and "gemini_functions_of tools = Inr fs"
  shows "session_body env w path inputs =
    ([Print transport_established, Print initializing, Print initialized] @ ev2 @
     snd (make_tools_list fs) @ client_ready @
     fst (snd (chat_loop env (session_start w3 (fst (make_tools_list fs))) inputs)),
     snd (snd (chat_loop env (session_start w3 (fst (make_tools_list fs))) inputs)))"
  using assms by (simp add: session_body_def Let_def split_beta)

lemma session_without_tools:
  assumes "stdio_client env w path = (None, w1)" and "initialize env w1 = (None, w2)"
    and "discover_tools env w2 = ([], ev2, w3)"
  shows "session_body env w path inputs =
    ([Print transport_established, Print initializing, Print initialized] @ ev2 @
     [Print no_tools_converted] @ client_ready @
     fst (snd (chat_loop env (session_start w3 []) inputs)),
     snd (snd (chat_loop env (session_start w3 []) inputs)))"
  using session_after_startup [OF assms, of "[]" inputs]
  by (simp add: make_tools_list_empty)

lemma client_ready_prints: "SendMessage m t \<notin> set client_ready"
  by (simp add: client_ready_def)

subsection \<open>A session without tools\<close>

text \<open>
  C6: when the enumeration returns no tool, the session enters the chat loop with an
  empty list of declarations, every message it sends to the model has \<open>None\<close> as its
  \<open>tools\<close> argument, and so has the first call of the model for the first query.
\<close>

theorem no_tools_no_declarations:
  assumes "stdio_client env w path = (None, w1)" and "initialize env w1 = (None, w2)"
    and "list_tools env w2 = (Inr [], w3)"
  shows "session_body env w path inputs =
      ([Print transport_established, Print initializing, Print initialized,
        Print discovering, Print no_tools_discovered, Print no_tools_converted] @
       client_ready @ fst (snd (chat_loop env (session_start w3 []) inputs)),
       snd (snd (chat_loop env (session_start w3 []) inputs))) \<and>
    (\<forall>m t. SendMessage m t \<in> set (fst (session_body env w path inputs)) \<longrightarrow> t = None) \<and>
    (\<not> is_quit q \<and> q \<noteq> [] \<longrightarrow>
       take 3 (fst (snd (chat_loop env (session_start w3 []) (q # rest)))) =
         [Input q, Print sending_query, SendMessage (UserText q) None])"
proof -
  have d: "discover_tools env w2 = ([], [Print discovering, Print no_tools_discovered], w3)"
    using assms(3) by (rule discover_nothing)
  have body: "session_body env w path inputs =
      ([Print transport_established, Print initializing, Print initialized,
        Print discovering, Print no_tools_discovered, Print no_tools_converted] @
       client_ready @ fst (snd (chat_loop env (session_start w3 []) inputs)),
       snd (snd (chat_loop env (session_start w3 []) inputs)))"
    using session_without_tools [OF assms(1) assms(2) d, of inputs] by simp
  have sent: "\<forall>m t. SendMessage m t \<in> set (fst (session_body env w path inputs)) \<longrightarrow> t = None"
  proof (intro allI impI)
    fix m t
    assume "SendMessage m t \<in> set (fst (session_body env w path inputs))"
    with body have "SendMessage m t \<in> set (fst (snd (chat_loop env (session_start w3 []) inputs)))"
      by (simp add: client_ready_prints)
    then have "t = tools_arg (gemini_tools_list (session_start w3 []))"
      by (rule loop_sent)
    then show "t = None"
      by (simp add: session_start_fields tools_arg_empty)
  qed
  have first: "\<not> is_quit q \<and> q \<noteq> [] \<longrightarrow>
       take 3 (fst (snd (chat_loop env (session_start w3 []) (q # rest)))) =
         [Input q, Print sending_query, SendMessage (UserText q) None]"
  proof
    assume "\<not> is_quit q \<and> q \<noteq> []"
    then have "take 3 (fst (snd (chat_loop env (session_start w3 []) (q # rest)))) =
        [Input q, Print sending_query,
         SendMessage (UserText q) (tools_arg (gemini_tools_list (session_start w3 [])))]"
      by (simp add: loop_first_call)
    then show "take 3 (fst (snd (chat_loop env (session_start w3 []) (q # rest)))) =
        [Input q, Print sending_query, SendMessage (UserText q) None]"
      by (simp add: session_start_fields tools_arg_empty)
  qed
  from body sent first show ?thesis by (intro conjI)
qed

text \<open>
  The scripted server declares no tool, the user says hello and quits: the one message
  to the model has no declarations.
\<close>

theorem no_tools_no_declarations_witness:
  "list_tools scripted no_tools = (Inr [], no_tools) \<and>
   fst (session_body scripted no_tools ''server.py'' [''Hello'', ''quit'']) =
     [Print transport_established, Print initializing, Print initialized,
      Print discovering, Print no_tools_discovered, Print no_tools_converted] @
     client_ready @
     [Input ''Hello'', Print sending_query, SendMessage (UserText ''Hello'') None,
      Print (llm_response ''Hello!''), Input ''quit''] \<and>
   take 3 (fst (snd (chat_loop scripted (session_start no_tools []) [''Hello'', ''quit'']))) =
     [Input ''Hello'', Print sending_query, SendMessage (UserText ''Hello'') None]"
proof -
  have a: "stdio_client scripted no_tools ''server.py'' = (None, no_tools)"
    and b: "initialize scripted no_tools = (None, no_tools)"
    by (simp_all add: scripted_startup)
  have c: "list_tools scripted no_tools = (Inr [], no_tools)"
    by (simp add: scripted_startup no_tools_def)
  note t = no_tools_no_declarations [OF a b c]
  have loop: "fst (snd (chat_loop scripted (session_start no_tools []) [''Hello'', ''quit''])) =
     [Input ''Hello'', Print sending_query, SendMessage (UserText ''Hello'') None,
      Print (llm_response ''Hello!''), Input ''quit'']"
    by (simp add: loop_turn loop_quit not_quit quit_is_quit turn_def turn_body_def Let_def
        scripted_send session_start_def no_tools_def answer_def tools_arg_empty)
  have body: "fst (session_body scripted no_tools ''server.py'' [''Hello'', ''quit'']) =
     [Print transport_established, Print initializing, Print initialized,
      Print discovering, Print no_tools_discovered, Print no_tools_converted] @
     client_ready @
     [Input ''Hello'', Print sending_query, SendMessage (UserText ''Hello'') None,
      Print (llm_response ''Hello!''), Input ''quit'']"
    using t [of "[''Hello'', ''quit'']", THEN conjunct1] by (simp only: loop fst_conv)
  have h: "\<not> is_quit ''Hello'' \<and> ''Hello'' \<noteq> []"
    by (simp add: not_quit)
  have first: "take 3 (fst (snd (chat_loop scripted (session_start no_tools []) [''Hello'', ''quit'']))) =
     [Input ''Hello'', Print sending_query, SendMessage (UserText ''Hello'') None]"
    using t [of _ "''Hello''" "[''quit'']", THEN conjunct2, THEN conjunct2, THEN mp, OF h] .
  from c body first show ?thesis by (intro conjI)
qed

subsection \<open>A failed enumeration\<close>

text \<open>
  C9: when the enumeration of the tools raises, the broker prints the error, makes no
  declarations and enters the chat loop without tools; the session then ends as the
  chat loop ends, by the quit command or at the end of the input.
\<close>

theorem enumeration_failure_degrades:
  assumes "stdio_client env w path = (None, w1)" and "initialize env w1 = (None, w2)"
    and "list_tools env w2 = (Inl e, w3)"
  shows "discover_tools env w2 = ([], [Print discovering, Print (listing_error e)], w3) \<and>
    session_body env w path inputs =
      ([Print transport_established, Print initializing, Print initialized,
        Print discovering, Print (listing_error e), Print no_tools_converted] @
       client_ready @ fst (snd (chat_loop env (session_start w3 []) inputs)),
       snd (snd (chat_loop env (session_start w3 []) inputs))) \<and>
    snd (session_body env w path inputs) =
      (if list_ex is_quit inputs then None else Some end_of_input)"
proof -
  have d: "discover_tools env w2 = ([], [Print discovering, Print (listing_error e)], w3)"
    using assms(3) by (rule discover_raises)
  have body: "session_body env w path inputs =
      ([Print transport_established, Print initializing, Print initialized,
        Print discovering, Print (listing_error e), Print no_tools_converted] @
       client_ready @ fst (snd (chat_loop env (session_start w3 []) inputs)),
       snd (snd (chat_loop env (session_start w3 []) inputs)))"
    using session_without_tools [OF assms(1) assms(2) d, of inputs] by simp
  have "snd (session_body env w path inputs) =
      (if list_ex is_quit inputs then None else Some end_of_input)"
    by (simp only: body snd_conv loop_ends)
  with d body show ?thesis by (intro conjI)
qed

text \<open>
  In the scripted world the enumeration raises; the user says hello and quits. The
  process prints the error, answers the query without declarations and exits with
  status 0.
\<close>

theorem enumeration_failure_degrades_witness:
  "list_tools scripted enumeration_raises = (Inl connection_closed, enumeration_raises) \<and>
   main scripted enumeration_raises [''client.py'', ''server.py''] [''Hello'', ''quit''] =
     (Print (attempting ''server.py'') #
      [Print transport_established, Print initializing, Print initialized,
       Print discovering, Print (listing_error connection_closed), Print no_tools_converted] @
      client_ready @
      [Input ''Hello'', Print sending_query, SendMessage (UserText ''Hello'') None,
       Print (llm_response ''Hello!''), Input ''quit'', Print exiting],
      0)"
proof -
  have a: "stdio_client scripted enumeration_raises ''server.py'' = (None, enumeration_raises)"
    and b: "initialize scripted enumeration_raises = (None, enumeration_raises)"
    by (simp_all add: scripted_startup)
  have c: "list_tools scripted enumeration_raises = (Inl connection_closed, enumeration_raises)"
    by (simp add: scripted_startup enumeration_raises_def)
  note t = enumeration_failure_degrades [OF a b c, of "[''Hello'', ''quit'']"]
  have loop: "chat_loop scripted (session_start enumeration_raises []) [''Hello'', ''quit''] =
     (session_start (enumeration_raises\<lparr>model_outcomes := []\<rparr>) []
        \<lparr>response := Some (answer ''Hello!'')\<rparr>,
      [Input ''Hello'', Print sending_query, SendMessage (UserText ''Hello'') None,
       Print (llm_response ''Hello!''), Input ''quit''],
      None)"
    by (simp add: loop_turn loop_quit not_quit quit_is_quit turn_def turn_body_def Let_def
        scripted_send session_start_def enumeration_raises_def answer_def tools_arg_empty)
  have body: "session_body scripted enumeration_raises ''server.py'' [''Hello'', ''quit''] =
     ([Print transport_established, Print initializing, Print initialized,
       Print discovering, Print (listing_error connection_closed), Print no_tools_converted] @
      client_ready @
      [Input ''Hello'', Print sending_query, SendMessage (UserText ''Hello'') None,
       Print (llm_response ''Hello!''), Input ''quit''],
      None)"
    using t [THEN conjunct2, THEN conjunct1] by (simp only: loop fst_conv snd_conv)
  have "main scripted enumeration_raises [''client.py'', ''server.py''] [''Hello'', ''quit''] =
     (Print (attempting ''server.py'') #
      [Print transport_established, Print initializing, Print initialized,
       Print discovering, Print (listing_error connection_closed), Print no_tools_converted] @
      client_ready @
      [Input ''Hello'', Print sending_query, SendMessage (UserText ''Hello'') None,
       Print (llm_response ''Hello!''), Input ''quit'', Print exiting],
      0)"
    by (simp add: main_def body)
  with c show ?thesis by (rule conjI)
qed

subsection \<open>Exceptions and the end of the session\<close>

text \<open>
  C7, as amended. No exception leaves a turn: one that leaves the body of the turn is
  printed with its class, followed by the apology, and one that leaves the call of a
  tool is printed and followed by the tool's apology. After a turn the loop reads the
  next line. The chat loop ends by the quit command, or with the exception that
  \<open>input\<close> raises when no line is left; once the connection, the initialization and
  the translation of the schemas have succeeded, the session ends in no other way.
\<close>

theorem turn_catches_exceptions:
  "snd (snd (turn env st q)) = None \<and>
   (snd (snd (turn_body env st q)) = Some e \<longrightarrow>
      (\<exists>fb. fst (snd (turn env st q)) =
         fst (snd (turn_body env st q)) @
         Print (chat_error e) # map Print fb @ [Print model_apology])) \<and>
   (mcp_session st \<and> snd (snd (call_and_relay env st n a)) = Some e \<longrightarrow>
      snd (tool_dispatch env st n a) =
        Print (calling_tool n) # fst (snd (call_and_relay env st n a)) @
        [Print (tool_error n e), Print tool_apology]) \<and>
   (\<not> is_quit q \<and> q \<noteq> [] \<longrightarrow>
      fst (snd (chat_loop env st (q # rest))) =
        Input q # fst (snd (turn env st q)) @
        fst (snd (chat_loop env (fst (turn env st q)) rest))) \<and>
   snd (snd (chat_loop env st inputs)) =
     (if list_ex is_quit inputs then None else Some end_of_input) \<and>
   (stdio_client env w path = (None, w1) \<and> initialize env w1 = (None, w2) \<and>
    discover_tools env w2 = (tools, ev2, w3) \<and> gemini_functions_of tools = Inr fs \<longrightarrow>
      snd (session_body env w path inputs) =
        (if list_ex is_quit inputs then None else Some end_of_input))"
proof (intro conjI impI)
  show "snd (snd (turn env st q)) = None"
    by (rule turn_returns)
next
  assume r: "snd (snd (turn_body env st q)) = Some e"
  show "\<exists>fb. fst (snd (turn env st q)) =
      fst (snd (turn_body env st q)) @ Print (chat_error e) # map Print fb @ [Print model_apology]"
  proof (cases rule: turn_cases [of env st q])
    case returns
    with r show ?thesis by simp
  next
    case (caught e' fb)
    with r have "e' = e" by simp
    with caught(2) have "fst (snd (turn env st q)) =
        fst (snd (turn_body env st q)) @ Print (chat_error e) # map Print fb @ [Print model_apology]"
      by simp
    then show ?thesis by (rule exI [where x = fb])
  qed
next
  assume h: "mcp_session st \<and> snd (snd (call_and_relay env st n a)) = Some e"
  obtain st' ev x where c: "call_and_relay env st n a = (st', ev, x)"
    by (cases "call_and_relay env st n a") blast
  with h have "call_and_relay env st n a = (st', ev, Some e)" by simp
  with h have "tool_dispatch env st n a =
      (st', Print (calling_tool n) # ev @ [Print (tool_error n e), Print tool_apology])"
    by (simp add: dispatch_raises)
  with c show "snd (tool_dispatch env st n a) =
      Print (calling_tool n) # fst (snd (call_and_relay env st n a)) @
      [Print (tool_error n e), Print tool_apology]"
    by simp
next
  assume "\<not> is_quit q \<and> q \<noteq> []"
  then show "fst (snd (chat_loop env st (q # rest))) =
      Input q # fst (snd (turn env st q)) @ fst (snd (chat_loop env (fst (turn env st q)) rest))"
    by (simp add: loop_turn)
next
  show "snd (snd (chat_loop env st inputs)) =
      (if list_ex is_quit inputs then None else Some end_of_input)"
    by (rule loop_ends)
next
  assume "stdio_client env w path = (None, w1) \<and> initialize env w1 = (None, w2) \<and>
    discover_tools env w2 = (tools, ev2, w3) \<and> gemini_functions_of tools = Inr fs"
  then have "snd (session_body env w path inputs) =
      snd (snd (chat_loop env (session_start w3 (fst (make_tools_list fs))) inputs))"
    using session_after_startup [of env w path w1 w2 tools ev2 w3 fs inputs] by simp
  then show "snd (session_body env w path inputs) =
      (if list_ex is_quit inputs then None else Some end_of_input)"
    by (simp only: loop_ends)
qed

text \<open>
  In the scripted world the model is out of reach for the first query: the error and the
  apology are printed, the loop reads the next line, the model answers it, and the user
  quits.
\<close>

theorem turn_catches_exceptions_witness:
  "snd (snd (turn scripted (session_start model_fails_once count_declarations) ''Hello'')) = None \<and>
   (\<exists>fb. fst (snd (turn scripted (session_start model_fails_once count_declarations) ''Hello'')) =
      [Print sending_query, SendMessage (UserText ''Hello'') (Some count_declarations)] @
      Print (chat_error unavailable) # map Print fb @ [Print model_apology]) \<and>
   fst (snd (chat_loop scripted (session_start model_fails_once count_declarations)
       [''Hello'', ''Hi'', ''quit''])) =
     [Input ''Hello'', Print sending_query,
      SendMessage (UserText ''Hello'') (Some count_declarations),
      Print (chat_error unavailable), Print (feedback_error unbound_response),
      Print model_apology,
      Input ''Hi'', Print sending_query,
      SendMessage (UserText ''Hi'') (Some count_declarations),
      Print (llm_response ''Hello!''),
      Input ''quit''] \<and>
   snd (snd (chat_loop scripted (session_start model_fails_once count_declarations)
       [''Hello'', ''Hi'', ''quit''])) = None \<and>
   snd (tool_dispatch scripted
       ((session_start tool_call_raises count_declarations)
          \<lparr>world := tool_call_raises\<lparr>model_outcomes := []\<rparr>,
           response := Some request_count\<rparr>)
       ''count_sentences'' the_args) =
     [Print (calling_tool ''count_sentences''), CallTool ''count_sentences'' the_args,
      Print (tool_error ''count_sentences'' connection_closed), Print tool_apology] \<and>
   snd (session_body scripted no_tools ''server.py'' [''Hello'', ''quit'']) = None"
proof -
  let ?start = "session_start model_fails_once count_declarations"
  let ?next = "?start\<lparr>world := model_fails_once\<lparr>model_outcomes := [Inr (answer ''Hello!'')]\<rparr>\<rparr>"
  note t = turn_catches_exceptions [where env = scripted and st = ?start and q = "''Hello''"]
  have b: "turn_body scripted ?start ''Hello'' =
      (?next, [Print sending_query, SendMessage (UserText ''Hello'') (Some count_declarations)],
       Some unavailable)"
    by (simp add: turn_body_def Let_def scripted_send session_start_def model_fails_once_def
        tools_arg_count)
  have unbound_class: "exn_class unbound_response = UnboundLocalError"
    by (simp add: unbound_response_def)
  have r: "snd (snd (turn_body scripted ?start ''Hello'')) = Some unavailable"
    by (simp only: b snd_conv)
  have first: "snd (snd (turn scripted ?start ''Hello'')) = None"
    using t [THEN conjunct1] .
  have second: "\<exists>fb. fst (snd (turn scripted ?start ''Hello'')) =
      [Print sending_query, SendMessage (UserText ''Hello'') (Some count_declarations)] @
      Print (chat_error unavailable) # map Print fb @ [Print model_apology]"
    using t [where e = unavailable, THEN conjunct2, THEN conjunct1, THEN mp, OF r]
    by (simp only: b fst_conv snd_conv)
  have tn: "turn scripted ?start ''Hello'' =
      (?next,
       [Print sending_query, SendMessage (UserText ''Hello'') (Some count_declarations),
        Print (chat_error unavailable), Print (feedback_error unbound_response),
        Print model_apology],
       None)"
    by (simp add: turn_def b turn_handler_def read_feedback_def session_start_fields
        unbound_class)
  have rest: "fst (snd (chat_loop scripted ?next [''Hi'', ''quit''])) =
      [Input ''Hi'', Print sending_query,
       SendMessage (UserText ''Hi'') (Some count_declarations),
       Print (llm_response ''Hello!''),
       Input ''quit'']"
    by (simp add: loop_turn loop_quit not_quit quit_is_quit turn_def turn_body_def Let_def
        scripted_send session_start_def model_fails_once_def answer_def tools_arg_count)
  have h: "\<not> is_quit ''Hello'' \<and> ''Hello'' \<noteq> []"
    by (simp add: not_quit)
  have third: "fst (snd (chat_loop scripted ?start [''Hello'', ''Hi'', ''quit''])) =
     [Input ''Hello'', Print sending_query,
      SendMessage (UserText ''Hello'') (Some count_declarations),
      Print (chat_error unavailable), Print (feedback_error unbound_response),
      Print model_apology,
      Input ''Hi'', Print sending_query,
      SendMessage (UserText ''Hi'') (Some count_declarations),
      Print (llm_response ''Hello!''),
      Input ''quit'']"
    using t [where rest = "[''Hi'', ''quit'']",
        THEN conjunct2, THEN conjunct2, THEN conjunct2, THEN conjunct1, THEN mp, OF h]
    by (simp add: tn rest)
  have fourth: "snd (snd (chat_loop scripted ?start [''Hello'', ''Hi'', ''quit''])) = None"
    using t [where inputs = "[''Hello'', ''Hi'', ''quit'']",
        THEN conjunct2, THEN conjunct2, THEN conjunct2, THEN conjunct2, THEN conjunct1]
    by (simp add: quit_is_quit)
  let ?asked = "(session_start tool_call_raises count_declarations)
      \<lparr>world := tool_call_raises\<lparr>model_outcomes := []\<rparr>, response := Some request_count\<rparr>"
  have relay: "call_and_relay scripted ?asked ''count_sentences'' the_args =
      (?asked\<lparr>world := tool_call_raises\<lparr>model_outcomes := [], tool_outcomes := []\<rparr>\<rparr>,
       [CallTool ''count_sentences'' the_args], Some connection_closed)"
    by (simp add: call_and_relay_def scripted_call session_start_def tool_call_raises_def)
  have k: "mcp_session ?asked \<and>
      snd (snd (call_and_relay scripted ?asked ''count_sentences'' the_args)) = Some connection_closed"
    by (simp add: relay session_start_fields)
  have fifth: "snd (tool_dispatch scripted ?asked ''count_sentences'' the_args) =
     [Print (calling_tool ''count_sentences''), CallTool ''count_sentences'' the_args,
      Print (tool_error ''count_sentences'' connection_closed), Print tool_apology]"
    using turn_catches_exceptions [where env = scripted and st = ?asked
        and n = "''count_sentences''" and a = the_args and e = connection_closed,
        THEN conjunct2, THEN conjunct2, THEN conjunct1, THEN mp, OF k]
    by (simp add: relay)
  have startup: "stdio_client scripted no_tools ''server.py'' = (None, no_tools) \<and>
      initialize scripted no_tools = (None, no_tools) \<and>
      discover_tools scripted no_tools =
        ([], [Print discovering, Print no_tools_discovered], no_tools) \<and>
      gemini_functions_of [] = Inr []"
    by (simp add: scripted_startup discover_tools_def no_tools_def)
  have sixth: "snd (session_body scripted no_tools ''server.py'' [''Hello'', ''quit'']) = None"
    using turn_catches_exceptions [where env = scripted and w = no_tools
        and path = "''server.py''" and inputs = "[''Hello'', ''quit'']",
        THEN conjunct2, THEN conjunct2, THEN conjunct2, THEN conjunct2, THEN conjunct2,
        THEN mp, OF startup]
    by (simp add: quit_is_quit)
  from first second third fourth fifth sixth show ?thesis by (intro conjI)
qed

text \<open>
  Against C7 as it is written: the connection is made, the server declares no tool, and
  the standard input ends after one query. The query is answered; then \<open>input\<close>
  raises \<open>EOFError\<close> outside the \<open>try\<close> of the turn, and the session ends in the
  last handler of \<open>main\<close>.
\<close>

theorem end_of_input_counterexample:
  "main scripted no_tools [''client.py'', ''server.py''] [''Hello''] =
     (Print (attempting ''server.py'') #
      [Print transport_established, Print initializing, Print initialized,
       Print discovering, Print no_tools_discovered, Print no_tools_converted] @
      client_ready @
      [Input ''Hello'', Print sending_query, SendMessage (UserText ''Hello'') None,
       Print (llm_response ''Hello!''),
       Print (unexpected_error end_of_input), Traceback end_of_input, Print exiting],
      0) \<and>
   exn_class end_of_input = EOFError"
proof -
  have loop: "chat_loop scripted (session_start no_tools []) [''Hello''] =
     (session_start (no_tools\<lparr>model_outcomes := []\<rparr>) []\<lparr>response := Some (answer ''Hello!'')\<rparr>,
      [Input ''Hello'', Print sending_query, SendMessage (UserText ''Hello'') None,
       Print (llm_response ''Hello!'')],
      Some end_of_input)"
    by (simp add: loop_turn not_quit chat_loop.simps(1) turn_def turn_body_def Let_def
        scripted_send session_start_def no_tools_def answer_def tools_arg_empty)
  have body: "session_body scripted no_tools ''server.py'' [''Hello''] =
     ([Print transport_established, Print initializing, Print initialized,
       Print discovering, Print no_tools_discovered, Print no_tools_converted] @
      client_ready @
      [Input ''Hello'', Print sending_query, SendMessage (UserText ''Hello'') None,
       Print (llm_response ''Hello!'')],
      Some end_of_input)"
    by (simp add: session_body_def Let_def scripted_startup discover_tools_def
        make_tools_list_def loop no_tools_def [THEN arg_cong, of tools_outcome])
  have cls: "exn_class end_of_input = EOFError"
    by (simp add: end_of_input_def)
  have "main scripted no_tools [''client.py'', ''server.py''] [''Hello''] =
     (Print (attempting ''server.py'') #
      [Print transport_established, Print initializing, Print initialized,
       Print discovering, Print no_tools_discovered, Print no_tools_converted] @
      client_ready @
      [Input ''Hello'', Print sending_query, SendMessage (UserText ''Hello'') None,
       Print (llm_response ''Hello!''),
       Print (unexpected_error end_of_input), Traceback end_of_input, Print exiting],
      0)"
    by (simp add: main_def body main_handler_def cls)
  with cls show ?thesis by (rule conjI [rotated])
qed

end
